theory Spec2Isabelle
  imports Complex_Main "HOL-Library.Monad_Syntax" "HOL-Library.Log_Nat"
begin

section \<open>JavaScript values\<close>

text \<open>
  Numbers are modelled as reals, instants (milliseconds since the epoch) as integers.
  A division by zero does not throw in JavaScript: it yields an infinity or NaN.
  \<open>None\<close> stands for such a non-finite number, so that a zero divisor is a branch of
  the model and not the value \<open>0\<close> that HOL gives to \<open>x / 0\<close>.
  A property that may be absent (\<open>undefined\<close>) is an option.
\<close>

definition truthy :: "real option \<Rightarrow> bool" where
  "truthy v = (case v of None \<Rightarrow> False | Some x \<Rightarrow> x \<noteq> 0)"

definition jsDiv :: "real \<Rightarrow> real \<Rightarrow> real option" where
  "jsDiv a b = (if b = 0 then None else Some (a / b))"

definition jsTrunc :: "real \<Rightarrow> int" where
  "jsTrunc x = (if x < 0 then \<lceil>x\<rceil> else \<lfloor>x\<rfloor>)"

definition jsRem :: "real \<Rightarrow> real \<Rightarrow> real option" where
  \<comment> \<open>The operator \<open>%\<close>: the remainder has the sign of the dividend.\<close>
  "jsRem a b = (if b = 0 then None else Some (a - b * of_int (jsTrunc (a / b))))"

definition jsRemInt :: "int \<Rightarrow> int \<Rightarrow> int" where
  \<comment> \<open>The operator \<open>%\<close> on integers, for a divisor that is not zero.\<close>
  "jsRemInt a b = sgn a * (\<bar>a\<bar> mod \<bar>b\<bar>)"

definition jsIndex :: "'a list \<Rightarrow> int \<Rightarrow> 'a option" where
  \<comment> \<open>Reading an array at an index: \<open>undefined\<close> outside the array.\<close>
  "jsIndex xs k = (if 0 \<le> k \<and> k < int (length xs) then Some (xs ! nat k) else None)"

datatype js_error = TypeError






section \<open>Dates\<close>

text \<open>
  Modelled from the spec: \<open>parseDateTime\<close> of \<open>utils/dateUtils\<close>, the date library
  behind it and the constant \<open>MILLISECONDS_IN_DAY\<close> of \<open>constants\<close> are defined outside
  the components verified here. A date-time made from a numeric instant is the instant
  itself. The month grid reads it on the proleptic Gregorian calendar in the zone of
  offset zero, where every day has 86400000 milliseconds: the relations between its cells
  do not depend on the zone.
\<close>

definition MILLISECONDS_IN_DAY :: int where
  "MILLISECONDS_IN_DAY = 86400000"

type_synonym DateTime = int

definition parseDateTime :: "int \<Rightarrow> DateTime" where
  "parseDateTime unix = unix"

definition toMillis :: "DateTime \<Rightarrow> int" where
  "toMillis d = d"

definition plusDays :: "DateTime \<Rightarrow> int \<Rightarrow> DateTime" where
  "plusDays d n = d + n * MILLISECONDS_IN_DAY"

definition minusDays :: "DateTime \<Rightarrow> int \<Rightarrow> DateTime" where
  "minusDays d n = d - n * MILLISECONDS_IN_DAY"

text \<open>
  Modelled from the spec: the calendar fields of a date-time (\<open>month\<close>, \<open>weekday\<close>,
  \<open>startOf('month')\<close>, \<open>toISODate\<close>) belong to the same date library. The civil
  date of a day number follows the usual era arithmetic of the Gregorian calendar; the
  weekday runs from 1 (Monday) to 7 (Sunday), and day 0 (1970-01-01) is a Thursday. The
  ISO date is kept as the triple (year, month, day) that its text spells out.
\<close>

definition daysFromCivil :: "int \<Rightarrow> int \<Rightarrow> int \<Rightarrow> int" where
  "daysFromCivil y m d =
     (let y' = (if m \<le> 2 then y - 1 else y);
          era = y' div 400;
          yoe = y' - era * 400;
          doy = (153 * (if m > 2 then m - 3 else m + 9) + 2) div 5 + d - 1;
          doe = yoe * 365 + yoe div 4 - yoe div 100 + doy
      in era * 146097 + doe - 719468)"

definition civilFromDays :: "int \<Rightarrow> int \<times> int \<times> int" where
  "civilFromDays z0 =
     (let z = z0 + 719468;
          era = z div 146097;
          doe = z - era * 146097;
          yoe = (doe - doe div 1460 + doe div 36524 - doe div 146096) div 365;
          y = yoe + era * 400;
          doy = doe - (365 * yoe + yoe div 4 - yoe div 100);
          mp = (5 * doy + 2) div 153;
          d = doy - (153 * mp + 2) div 5 + 1;
          m = (if mp < 10 then mp + 3 else mp - 9)
      in (if m \<le> 2 then y + 1 else y, m, d))"

definition dayNumber :: "DateTime \<Rightarrow> int" where
  "dayNumber d = d div MILLISECONDS_IN_DAY"

definition toISODate :: "DateTime \<Rightarrow> int \<times> int \<times> int" where
  "toISODate d = civilFromDays (dayNumber d)"

definition month :: "DateTime \<Rightarrow> int" where
  "month d = fst (snd (toISODate d))"

definition weekday :: "DateTime \<Rightarrow> int" where
  "weekday d = (dayNumber d + 3) mod 7 + 1"

definition startOfMonth :: "DateTime \<Rightarrow> DateTime" where
  "startOfMonth d =
     (case toISODate d of (y, m, _) \<Rightarrow> daysFromCivil y m 1 * MILLISECONDS_IN_DAY)"

text \<open>
  Modelled from the spec: the day walk of an event block depends on the length of the
  local days, so there the zone of the date library is a parameter. A zone has an offset
  of local time from UTC (in milliseconds) and at most one period of summer time, in which
  the offset is one hour more. A date-time keeps its local time when days are added;
  the instant of a local time is found with the offset before the step as a first guess,
  corrected by the offset that holds at the guess.
\<close>

record Zone =
  standardOffset :: int
  summerFrom :: int
  summerUntil :: int

definition offset :: "Zone \<Rightarrow> int \<Rightarrow> int" where
  "offset z unix =
     (if summerFrom z \<le> unix \<and> unix < summerUntil z then standardOffset z + 3600000
      else standardOffset z)"

definition fromLocal :: "Zone \<Rightarrow> int \<Rightarrow> int \<Rightarrow> int" where
  "fromLocal z guess localTime = localTime - offset z (localTime - guess)"

definition plusDaysIn :: "Zone \<Rightarrow> DateTime \<Rightarrow> int \<Rightarrow> DateTime" where
  "plusDaysIn z d n = fromLocal z (offset z d) (d + offset z d + n * MILLISECONDS_IN_DAY)"

definition startOfDayIn :: "Zone \<Rightarrow> DateTime \<Rightarrow> DateTime" where
  "startOfDayIn z d =
     (let localTime = d + offset z d
      in fromLocal z (offset z d) (localTime - localTime mod MILLISECONDS_IN_DAY))"

text \<open>
  The two \<open>for\<close> statements of \<open>data\<close> walk day by day from \<open>dayUnix\<close> up to \<open>limit\<close> and change the
  counter by \<open>delta\<close> (\<open>diffDays++\<close> in the first, \<open>diffDays--\<close> in the second) at every
  day whose start is not a key of the visible-dates map.
\<close>

function walkDays ::
  "Zone \<Rightarrow> (int \<rightharpoonup> 'v) \<Rightarrow> int \<Rightarrow> int \<Rightarrow> int \<Rightarrow> int \<Rightarrow> int" where
  "walkDays zone visibleDates delta dayUnix limit diffDays =
     (if dayUnix < limit
      then walkDays zone visibleDates delta
             (toMillis (plusDaysIn zone (parseDateTime dayUnix) 1)) limit
             (let dayStartUnix = toMillis (startOfDayIn zone (parseDateTime dayUnix))
              in if visibleDates dayStartUnix = None then diffDays + delta else diffDays)
      else diffDays)"
  by pat_completeness auto
termination
  by (relation "measure (\<lambda>(zone, visibleDates, delta, dayUnix, limit, diffDays).
                  nat (limit - dayUnix))")
     (auto simp: toMillis_def plusDaysIn_def fromLocal_def offset_def parseDateTime_def
        MILLISECONDS_IN_DAY_def)

declare walkDays.simps [simp del]

section \<open>The time-grid event block (EventItem)\<close>

datatype DateType = DateString string | DateNumber int

record EventItem =
  id' :: string
  start :: DateType
  end' :: DateType
  title :: "string option"
  color :: "string option"
  titleColor :: "string option"
  resourceId :: "string option"

record EventItemInternal =
  duration :: real
  startMinutes :: "real option"
  total' :: "real option"
  index :: "real option"
  columnSpan :: "real option"
  startUnix :: int
  widthPercentage :: "real option"
  xOffsetPercentage :: "real option"
  resourceIndex :: "real option"

text \<open>
  A packed event is the host's record with the property \<open>_internal\<close>. The value is a
  JavaScript object, so the property can be missing: \<open>None\<close> is an object without it.
\<close>

record PackedEvent = EventItem +
  internal :: "EventItemInternal option"

text \<open>The values of \<open>useBody()\<close> that the event block reads.\<close>

record BodyContext =
  minuteHeight :: real
  start :: real
  end' :: real
  rightEdgeSpacing :: real
  overlapEventsSpacing :: real
  columnWidth :: real
  resourcePerPage :: real
  enableResourceScroll :: bool

text \<open>The properties of the component; an optional property is an option.\<close>

record ('r, 'g, 'a) EventItemProps =
  event :: PackedEvent
  startUnix :: int
  renderEvent :: "(PackedEvent \<Rightarrow> real option \<times> real \<Rightarrow> 'r) option"
  onPressEvent :: "(PackedEvent \<Rightarrow> 'a) option"
  onLongPressEvent :: "(PackedEvent \<Rightarrow> 'g \<Rightarrow> 'a) option"
  isDragging :: "bool option"
  visibleDates :: "int \<rightharpoonup> int \<times> int"
  totalResources :: "real option"

record EventData =
  totalDuration :: real
  startMinutes :: real
  diffDays :: int

definition startMinutesOrDefault :: "EventItemInternal \<Rightarrow> real" where
  \<comment> \<open>The default of the destructuring \<open>startMinutes = 0\<close>.\<close>
  "startMinutesOrDefault i =
     (case EventItemInternal.startMinutes i of None \<Rightarrow> 0 | Some m \<Rightarrow> m)"

definition data ::
  "Zone \<Rightarrow> BodyContext \<Rightarrow> ('r, 'g, 'a) EventItemProps \<Rightarrow> EventItemInternal \<Rightarrow> EventData" where
  "data zone ctx props i =
     (let maxDuration = BodyContext.end' ctx - BodyContext.start ctx;
          newStart = startMinutesOrDefault i - BodyContext.start ctx;
          totalDuration = min (duration i) maxDuration;
          (totalDuration, newStart) =
             (if newStart < 0 then (totalDuration + newStart, 0) else (totalDuration, newStart));
          eventStartUnix = EventItemInternal.startUnix i;
          startUnix = EventItemProps.startUnix props;
          diffDays = (eventStartUnix - startUnix) div MILLISECONDS_IN_DAY;
          diffDays =
             (if eventStartUnix < startUnix
              then walkDays zone (visibleDates props) 1 eventStartUnix startUnix diffDays
              else walkDays zone (visibleDates props) (- 1) startUnix eventStartUnix diffDays)
      in \<lparr>totalDuration = totalDuration, startMinutes = newStart, diffDays = diffDays\<rparr>)"

definition timeRange :: "BodyContext \<Rightarrow> real" where
  "timeRange ctx = BodyContext.end' ctx - BodyContext.start ctx"

definition heightPercent :: "BodyContext \<Rightarrow> EventData \<Rightarrow> real option" where
  "heightPercent ctx d = map_option (\<lambda>q. q * 100) (jsDiv (totalDuration d - 1) (timeRange ctx))"

definition topPercent :: "BodyContext \<Rightarrow> EventData \<Rightarrow> real option" where
  "topPercent ctx d =
     map_option (\<lambda>q. q * 100) (jsDiv (EventData.startMinutes d + 1) (timeRange ctx))"



definition childColumns :: "BodyContext \<Rightarrow> ('r, 'g, 'a) EventItemProps \<Rightarrow> real" where
  "childColumns ctx props =
     (if enableResourceScroll ctx then resourcePerPage ctx
      else if truthy (totalResources props) \<and> the (totalResources props) > 0
           then the (totalResources props)
           else 1)"

definition availableWidth :: "BodyContext \<Rightarrow> ('r, 'g, 'a) EventItemProps \<Rightarrow> real option" where
  "availableWidth ctx props =
     map_option (\<lambda>w. w - rightEdgeSpacing ctx) (jsDiv (columnWidth ctx) (childColumns ctx props))"

definition widthPercent ::
  "BodyContext \<Rightarrow> ('r, 'g, 'a) EventItemProps \<Rightarrow> EventItemInternal \<Rightarrow> real option" where
  "widthPercent ctx props i =
     (if truthy (total' i) \<and> truthy (columnSpan i)
      then do {
        availableWidth \<leftarrow> availableWidth ctx props;
        let totalColumns = the (total' i) - the (columnSpan i);
        let overlapSpacing = (totalColumns * overlapEventsSpacing ctx) / the (total' i);
        let eventWidth = (availableWidth / the (total' i)) * the (columnSpan i) - overlapSpacing;
        jsDiv eventWidth availableWidth
      }
      else Some (if truthy (widthPercentage i) then the (widthPercentage i) / 100 else 1))"

definition eventWidth ::
  "BodyContext \<Rightarrow> ('r, 'g, 'a) EventItemProps \<Rightarrow> EventItemInternal \<Rightarrow> real option" where
  "eventWidth ctx props i =
     do {
       widthPercent \<leftarrow> widthPercent ctx props i;
       availableWidth \<leftarrow> availableWidth ctx props;
       Some (widthPercent * availableWidth)
     }"

definition eventPosX ::
  "BodyContext \<Rightarrow> ('r, 'g, 'a) EventItemProps \<Rightarrow> EventItemInternal \<Rightarrow> EventData \<Rightarrow> real option" where
  "eventPosX ctx props i d =
     do {
       colWidth \<leftarrow> jsDiv (columnWidth ctx) (childColumns ctx props);
       startOffset \<leftarrow>
         (if truthy (resourceIndex i)
          then map_option (\<lambda>r. r * colWidth)
                 (if enableResourceScroll ctx
                  then jsRem (the (resourceIndex i)) (resourcePerPage ctx)
                  else Some (the (resourceIndex i)))
          else Some 0);
       let left = of_int (diffDays d) * colWidth + startOffset;
       if truthy (xOffsetPercentage i)
       then map_option (\<lambda>availableWidth. left + availableWidth * (the (xOffsetPercentage i) / 100))
              (availableWidth ctx props)
       else if truthy (columnSpan i) \<and> truthy (index i)
       then map_option
              (\<lambda>eventWidth. left + (eventWidth + overlapEventsSpacing ctx)
                                     * (the (index i) / the (columnSpan i)))
              (eventWidth ctx props i)
       else Some left
     }"

text \<open>
  The handlers of the block. A call of a host callback is its application; \<open>None\<close> says
  that no callback ran. \<open>_onLongPressEvent\<close> asserts that the callback is there
  (\<open>onLongPressEvent!\<close>), so a call without it is a \<open>TypeError\<close>.
\<close>

definition onPressEvent' :: "('r, 'g, 'a) EventItemProps \<Rightarrow> 'a option" where
  "onPressEvent' props =
     (let eventInput = event props
      in case onPressEvent props of
           Some callback \<Rightarrow> Some (callback eventInput)
         | None \<Rightarrow> None)"

definition onLongPressEvent' :: "('r, 'g, 'a) EventItemProps \<Rightarrow> 'g \<Rightarrow> js_error + 'a" where
  "onLongPressEvent' props resEvent =
     (let eventInput = event props
      in case onLongPressEvent props of
           Some callback \<Rightarrow> Inr (callback eventInput resEvent)
         | None \<Rightarrow> Inl TypeError)"

datatype 'r EventContent =
  Rendered 'r
| DefaultText "string option" "string option"

record ('r, 'g, 'a) EventItemView =
  width :: "real option"
  left :: "real option"
  height :: "real option"
  top :: "real option"
  disabled :: bool
  onPress :: "'a option option"
  onLongPress :: "('g \<Rightarrow> js_error + 'a) option"
  overlapEvent :: bool
  backgroundColor :: "string option"
  opacity :: real
  content :: "'r EventContent"

text \<open>
  The component; \<open>zone\<close> is the zone in which \<open>parseDateTime\<close> reads an instant.
  \<open>const { _internal, ...event } = eventInput\<close> splits the packed event;
  reading the fields of a missing \<open>_internal\<close> throws. The field \<open>onPress\<close> of the view
  holds what a press does (\<open>None\<close>: the block has no press handler).
\<close>

definition EventItem_FC ::
  "Zone \<Rightarrow> BodyContext \<Rightarrow> ('r, 'g, 'a) EventItemProps
     \<Rightarrow> js_error + ('r, 'g, 'a) EventItemView" where
  "EventItem_FC zone ctx props =
     (let eventInput = event props;
          event = eventInput\<lparr>internal := None\<rparr>
      in case internal eventInput of
           None \<Rightarrow> Inl TypeError
         | Some i \<Rightarrow>
             let d = data zone ctx props i;
                 eventHeight = totalDuration d * minuteHeight ctx - 1;
                 eventWidth = eventWidth ctx props i;
                 eventPosX = eventPosX ctx props i d
             in Inr \<lparr>
                  width = eventWidth,
                  left = map_option (\<lambda>x. x + 1) eventPosX,
                  height = heightPercent ctx d,
                  top = topPercent ctx d,
                  disabled = (onPressEvent props = None \<and> onLongPressEvent props = None),
                  onPress = (if onPressEvent props \<noteq> None then Some (onPressEvent' props)
                             else None),
                  onLongPress = (if onLongPressEvent props \<noteq> None
                                 then Some (onLongPressEvent' props) else None),
                  overlapEvent = truthy (xOffsetPercentage i),
                  backgroundColor = color event,
                  opacity = (if isDragging props = Some True then 0.5 else 1),
                  content = (case renderEvent props of
                               Some render \<Rightarrow> Rendered (render eventInput (eventWidth, eventHeight))
                             | None \<Rightarrow> DefaultText (title event) (titleColor event))
                \<rparr>)"

section \<open>The month grid (MonthView)\<close>

text \<open>
  What the component reads from its contexts: \<open>firstDay\<close> (useCalendar), \<open>weekDayShort\<close>
  (useLocale), \<open>currentDateUnix\<close> (useNowIndicator) and \<open>timezone\<close> (useTimezone).
\<close>

record MonthViewContext =
  firstDay :: int
  weekDayShort :: "string list"
  currentDateUnix :: int
  timezone :: string

record ('pd, 'pe, 're, 'rd) MonthViewProps =
  dateUnix :: int
  events :: "EventItem list"
  onPressDay :: "'pd option"
  onPressEvent :: "'pe option"
  renderEvent :: "'re option"
  renderDayItem :: "'rd option"

record MonthDayData =
  dateUnix :: int
  date :: DateTime
  isCurrentMonth :: bool
  isToday :: bool
  events :: "EventItem list"

text \<open>
  A line written by \<open>console.warn('Error parsing event date:', event.start, error)\<close>.
\<close>

type_synonym warning = "DateType \<times> string"

text \<open>
  Modelled from the spec: the date-time that \<open>parseDateTime\<close> returns for an event start
  is a valid instant or is not one. The date library marks a text that it could not read
  as an invalid date-time, whose \<open>toISODate()\<close> is \<open>null\<close>, and throws only when it is set
  to.
\<close>

datatype ParsedDateTime = InvalidDateTime | ValidDateTime DateTime

definition toISODateOrNull :: "ParsedDateTime \<Rightarrow> (int \<times> int \<times> int) option" where
  "toISODateOrNull p =
     (case p of InvalidDateTime \<Rightarrow> None | ValidDateTime d \<Rightarrow> Some (toISODate d))"

text \<open>
  The filter of one day cell. \<open>parseDateTime(event.start, { zone: timezone })\<close> reads a
  string or a number in a named zone; the function is defined in \<open>utils/dateUtils\<close> and
  is the parameter \<open>parse\<close> here: \<open>Inl error\<close> is a parse that throws \<open>error\<close>,
  \<open>Inr p\<close> one that returns the date-time \<open>p\<close>, valid or not. The comparison
  \<open>eventDate.toISODate() === dayDate.toISODate()\<close> is false for an invalid \<open>eventDate\<close>,
  the day of the cell being valid. The result is the events kept and the warnings
  written, in order.
\<close>

fun dayEvents ::
  "(DateType \<Rightarrow> string \<Rightarrow> string + ParsedDateTime) \<Rightarrow> string \<Rightarrow> DateTime
     \<Rightarrow> EventItem list \<Rightarrow> EventItem list \<times> warning list" where
  "dayEvents parse tz dayDate [] = ([], [])"
| "dayEvents parse tz dayDate (ev # evs) =
     (case dayEvents parse tz dayDate evs of
        (kept, warnings) \<Rightarrow>
          (case parse (EventItem.start ev) tz of
             Inr eventDate \<Rightarrow>
               (if toISODateOrNull eventDate = Some (toISODate dayDate)
                then ev # kept else kept, warnings)
           | Inl error \<Rightarrow> (kept, (EventItem.start ev, error) # warnings)))"

definition diffToFirstDay :: "MonthViewContext \<Rightarrow> DateTime \<Rightarrow> int" where
  "diffToFirstDay env startOfMonth' =
     (let firstDayOfWeek = weekday startOfMonth'
      in jsRemInt (firstDayOfWeek - firstDay env + 7) 7)"

definition startOfCalendar :: "MonthViewContext \<Rightarrow> int \<Rightarrow> DateTime" where
  "startOfCalendar env anchorUnix =
     (let currentDate = parseDateTime anchorUnix;
          startOfMonth' = startOfMonth currentDate
      in minusDays startOfMonth' (diffToFirstDay env startOfMonth'))"

definition monthCell ::
  "(DateType \<Rightarrow> string \<Rightarrow> string + ParsedDateTime) \<Rightarrow> MonthViewContext
     \<Rightarrow> ('pd, 'pe, 're, 'rd) MonthViewProps \<Rightarrow> nat \<Rightarrow> MonthDayData \<times> warning list" where
  "monthCell parse env props i =
     (let currentDate = parseDateTime (MonthViewProps.dateUnix props);
          dayDate = plusDays (startOfCalendar env (MonthViewProps.dateUnix props)) (int i);
          dayUnix = toMillis dayDate;
          isCurrentMonth = (month dayDate = month currentDate);
          isToday = (toMillis dayDate = currentDateUnix env)
      in case dayEvents parse (timezone env) dayDate (MonthViewProps.events props) of
           (kept, warnings) \<Rightarrow>
             (\<lparr>dateUnix = dayUnix, date = dayDate, isCurrentMonth = isCurrentMonth,
               isToday = isToday, events = kept\<rparr>, warnings))"

text \<open>
  \<open>monthData\<close>: the loop \<open>for (let i = 0; i < 42; i++)\<close> pushes one cell per index; the
  second component collects what the loop wrote to the console.
\<close>

definition monthData ::
  "(DateType \<Rightarrow> string \<Rightarrow> string + ParsedDateTime) \<Rightarrow> MonthViewContext
     \<Rightarrow> ('pd, 'pe, 're, 'rd) MonthViewProps \<Rightarrow> MonthDayData list \<times> warning list" where
  "monthData parse env props =
     (let cells = map (monthCell parse env props) [0 ..< 42]
      in (map fst cells, concat (map snd cells)))"

definition weekDays :: "MonthViewContext \<Rightarrow> string option list" where
  "weekDays env =
     map (\<lambda>i. let dayIndex = jsRemInt (firstDay env + int i - 1) 7
               in jsIndex (weekDayShort env) dayIndex) [0 ..< 7]"

definition weeks :: "MonthDayData list \<Rightarrow> MonthDayData list list" where
  "weeks days = map (\<lambda>i. take 7 (drop (i * 7) days)) [0 ..< 6]"

section \<open>The month page (MonthViewBody)\<close>

record ('pd, 'pe, 're, 'rd) MonthViewBodyProps =
  pageIndex :: int
  dateUnix :: int
  onPressDay :: "'pd option"
  onPressEvent :: "'pe option"
  renderEvent :: "'re option"
  renderDayItem :: "'rd option"

text \<open>The element that the page renders inside its container: a month grid with these properties.\<close>

definition MonthViewBody ::
  "('pd, 'pe, 're, 'rd) MonthViewBodyProps \<Rightarrow> ('pd, 'pe, 're, 'rd) MonthViewProps" where
  "MonthViewBody props =
     (let events = []
      in \<lparr>MonthViewProps.dateUnix = MonthViewBodyProps.dateUnix props,
          MonthViewProps.events = events,
          MonthViewProps.onPressDay = MonthViewBodyProps.onPressDay props,
          MonthViewProps.onPressEvent = MonthViewBodyProps.onPressEvent props,
          MonthViewProps.renderEvent = MonthViewBodyProps.renderEvent props,
          MonthViewProps.renderDayItem = MonthViewBodyProps.renderDayItem props\<rparr>)"

section \<open>The pages of the time-grid body (CalendarBody)\<close>

text \<open>
  What the grid of the body reads: \<open>numberOfDays\<close> and \<open>enableResourceScroll\<close> of the
  calendar context, the callbacks of the actions and the properties, and the fields
  \<open>columns\<close>, \<open>visibleDatesArray\<close>, \<open>renderDraggableEvent\<close> and \<open>resources\<close> of
  \<open>extraData\<close>.
\<close>

record ('pd, 'pe, 're) CalendarBodyEnv =
  numberOfDays :: int
  onPressDayNumber :: "'pd option"
  onPressEvent :: "'pe option"
  renderEvent :: "'re option"
  enableResourceScroll :: bool

record ('rde, 'res) ExtraData =
  columns :: int
  visibleDatesArray :: "int list"
  renderDraggableEvent :: "'rde option"
  resources :: "'res option"

record ('rde, 'res) BodyItemProps =
  pageIndex :: int
  startUnix :: int
  renderDraggableEvent :: "'rde option"
  resources :: "'res option"

datatype ('pd, 'pe, 're, 'rd, 'rde, 'res) page =
  MonthViewBodyPage "('pd, 'pe, 're, 'rd) MonthViewBodyProps"
| BodyItemPage "('rde, 'res) BodyItemProps"
| BodyResourceItemPage "'res"

text \<open>\<open>_renderTimeSlots\<close>; the result \<open>None\<close> is \<open>null\<close>, a page that renders nothing.\<close>

definition renderTimeSlots ::
  "('pd, 'pe, 're) CalendarBodyEnv \<Rightarrow> int \<Rightarrow> ('rde, 'res) ExtraData
     \<Rightarrow> ('pd, 'pe, 're, 'rd, 'rde, 'res) page option" where
  "renderTimeSlots env idx extra =
     (let pageIndex = idx * columns extra;
          dateUnixByIndex = jsIndex (visibleDatesArray extra) pageIndex
      in if dateUnixByIndex = None \<or> dateUnixByIndex = Some 0 then None
         else if numberOfDays env = 30
         then Some (MonthViewBodyPage
                \<lparr>MonthViewBodyProps.pageIndex = pageIndex,
                 MonthViewBodyProps.dateUnix = the dateUnixByIndex,
                 MonthViewBodyProps.onPressDay = onPressDayNumber env,
                 MonthViewBodyProps.onPressEvent = CalendarBodyEnv.onPressEvent env,
                 MonthViewBodyProps.renderEvent = CalendarBodyEnv.renderEvent env,
                 MonthViewBodyProps.renderDayItem = None\<rparr>)
         else Some (BodyItemPage
                \<lparr>BodyItemProps.pageIndex = pageIndex,
                 BodyItemProps.startUnix = the dateUnixByIndex,
                 BodyItemProps.renderDraggableEvent = ExtraData.renderDraggableEvent extra,
                 BodyItemProps.resources = ExtraData.resources extra\<rparr>))"

text \<open>
  \<open>_renderResourceItem\<close>: the item \<open>{ items, index }\<close> is given by its two fields, and the
  page is \<open><BodyResourceItem resources={item.items} />\<close>.
\<close>

definition renderResourceItem ::
  "'res \<Rightarrow> int \<Rightarrow> ('pd, 'pe, 're, 'rd, 'rde, 'res) page" where
  "renderResourceItem resourceItems resourcePage = BodyResourceItemPage resourceItems"

text \<open>
  The list that fills the grid, \<open>enableResourceScroll ? <ResourceListView ... /> :
  <CalendarListView ... />\<close>, with the \<open>renderItem\<close> that it is given and, for the second
  one, its \<open>extraData\<close>. The two lists call \<open>renderItem\<close> for each of their pages.
\<close>

datatype ('pd, 'pe, 're, 'rd, 'rde, 'res) listView =
  ResourceListView "'res \<Rightarrow> int \<Rightarrow> ('pd, 'pe, 're, 'rd, 'rde, 'res) page"
| CalendarListView
    "int \<Rightarrow> ('rde, 'res) ExtraData \<Rightarrow> ('pd, 'pe, 're, 'rd, 'rde, 'res) page option"
    "('rde, 'res) ExtraData"

definition gridListView ::
  "('pd, 'pe, 're) CalendarBodyEnv \<Rightarrow> ('rde, 'res) ExtraData
     \<Rightarrow> ('pd, 'pe, 're, 'rd, 'rde, 'res) listView" where
  "gridListView env extraData =
     (if enableResourceScroll env then ResourceListView renderResourceItem
      else CalendarListView (renderTimeSlots env) extraData)"

section \<open>The column count in the words of the specification\<close>

text \<open>
  The calendar days from the day of the instant \<open>a\<close> up to, and without, the instant \<open>b\<close>,
  each given by its start; the number of them that are keys of the visible-dates map; and
  the signed count between the start of the viewport and the start of the event, negative
  for an event that starts earlier.
\<close>

function spec_dayStarts :: "Zone \<Rightarrow> int \<Rightarrow> int \<Rightarrow> int list" where
  "spec_dayStarts z a b =
     (if a < b then startOfDayIn z a # spec_dayStarts z (plusDaysIn z a 1) b else [])"
  by pat_completeness auto
termination
  by (relation "measure (\<lambda>(z, a, b). nat (b - a))")
     (auto simp: plusDaysIn_def fromLocal_def offset_def MILLISECONDS_IN_DAY_def)

declare spec_dayStarts.simps [simp del]

definition spec_visibleColumns :: "Zone \<Rightarrow> (int \<rightharpoonup> 'v) \<Rightarrow> int \<Rightarrow> int \<Rightarrow> int" where
  "spec_visibleColumns z vis a b =
     int (length (filter (\<lambda>d. vis d \<noteq> None) (spec_dayStarts z a b)))"

definition spec_signedVisibleColumns :: "Zone \<Rightarrow> (int \<rightharpoonup> 'v) \<Rightarrow> int \<Rightarrow> int \<Rightarrow> int" where
  "spec_signedVisibleColumns z vis viewportStart eventStart =
     (if eventStart < viewportStart then - spec_visibleColumns z vis eventStart viewportStart
      else spec_visibleColumns z vis viewportStart eventStart)"

text \<open>
  The value of \<open>left\<close> in \<open>eventPosX\<close> before an offset is added,
  \<open>data.diffDays * colWidth + startOffset\<close>, for a column width that is finite.
\<close>

definition baseLeft ::
  "BodyContext \<Rightarrow> ('r, 'g, 'a) EventItemProps \<Rightarrow> EventItemInternal \<Rightarrow> EventData \<Rightarrow> real" where
  "baseLeft ctx props i d =
     (of_int (diffDays d) * (columnWidth ctx / childColumns ctx props)
       + (if truthy (resourceIndex i)
          then (if BodyContext.enableResourceScroll ctx
                then the (jsRem (the (resourceIndex i)) (resourcePerPage ctx))
                else the (resourceIndex i)) * (columnWidth ctx / childColumns ctx props)
          else 0))"

section \<open>Sample inputs\<close>

text \<open>
  The zone of offset zero, and New York in 2024: five hours behind UTC, four hours from
  10 March 07:00 UTC to 3 November 06:00 UTC.
\<close>

definition utc :: Zone where
  "utc = \<lparr>standardOffset = 0, summerFrom = 0, summerUntil = 0\<rparr>"

definition newYork :: Zone where
  "newYork =
     \<lparr>standardOffset = - 18000000, summerFrom = 1710054000000,
      summerUntil = 1730613600000\<rparr>"

definition sampleContext :: BodyContext where
  "sampleContext =
     \<lparr>minuteHeight = 1, start = 0, end' = 1440, rightEdgeSpacing = 1,
      overlapEventsSpacing = 2, columnWidth = 101, resourcePerPage = 1,
      BodyContext.enableResourceScroll = False\<rparr>"

definition sampleInternal :: EventItemInternal where
  "sampleInternal =
     \<lparr>duration = 60, startMinutes = Some 600, total' = Some 2, index = Some 0,
      columnSpan = Some 1, startUnix = 172800000, widthPercentage = None,
      xOffsetPercentage = None, resourceIndex = None\<rparr>"

definition sampleEvent :: PackedEvent where
  "sampleEvent =
     \<lparr>id' = ''e1'', start = DateString ''2024-02-15T10:00:00Z'',
      end' = DateString ''2024-02-15T11:00:00Z'', title = Some ''Standup'',
      color = Some ''#3B82F6'', titleColor = None, resourceId = None,
      internal = Some sampleInternal\<rparr>"

definition sampleProps :: "(unit, unit, PackedEvent) EventItemProps" where
  "sampleProps =
     \<lparr>event = sampleEvent, startUnix = 0, renderEvent = None,
      onPressEvent = Some (\<lambda>e. e), onLongPressEvent = Some (\<lambda>e g. e),
      isDragging = None,
      visibleDates = [0 \<mapsto> (0, 0), 172800000 \<mapsto> (1, 172800000)],
      totalResources = None\<rparr>"

text \<open>
  A viewport that starts on 9 March 2024, 00:00 in New York, and an event on 11 March,
  00:00 in New York, 47 hours later; the map holds all three days, or the first and the
  third only.
\<close>

definition marchInternal :: EventItemInternal where
  "marchInternal = sampleInternal\<lparr>EventItemInternal.startUnix := 1710129600000\<rparr>"

definition marchProps :: "bool \<Rightarrow> (unit, unit, PackedEvent) EventItemProps" where
  "marchProps middleVisible =
     sampleProps
       \<lparr>event := sampleEvent\<lparr>internal := Some marchInternal\<rparr>,
        EventItemProps.startUnix := 1709960400000,
        visibleDates :=
          (if middleVisible
           then [1709960400000 \<mapsto> (0, 1709960400000), 1710046800000 \<mapsto> (1, 1710046800000),
                 1710129600000 \<mapsto> (2, 1710129600000)]
           else [1709960400000 \<mapsto> (0, 1709960400000),
                 1710129600000 \<mapsto> (1, 1710129600000)])\<rparr>"

text \<open>A visible range that starts at 08:00, and an event that starts at 07:00.\<close>

definition lateContext :: BodyContext where
  "lateContext = sampleContext\<lparr>BodyContext.start := 480\<rparr>"

definition earlyInternal :: "real \<Rightarrow> EventItemInternal" where
  "earlyInternal d = sampleInternal\<lparr>duration := d, EventItemInternal.startMinutes := Some 420\<rparr>"

definition earlyProps :: "real \<Rightarrow> (unit, unit, PackedEvent) EventItemProps" where
  "earlyProps d = sampleProps\<lparr>event := sampleEvent\<lparr>internal := Some (earlyInternal d)\<rparr>\<rparr>"


text \<open>A second event of the same slot, in the second of the two columns.\<close>

definition secondInternal :: EventItemInternal where
  "secondInternal = sampleInternal\<lparr>index := Some 1\<rparr>"

definition secondProps :: "(unit, unit, PackedEvent) EventItemProps" where
  "secondProps = sampleProps\<lparr>event := sampleEvent\<lparr>internal := Some secondInternal\<rparr>\<rparr>"

text \<open>The weekday that a configured first day names: 0 and 7 both stand for Sunday.\<close>

definition firstDayWeekday :: "int \<Rightarrow> int" where
  "firstDayWeekday fd = (if fd = 0 then 7 else fd)"

text \<open>
  A month page of February 2024, a locale whose table starts with Monday, a parser that
  reads numbers and one date text and returns an invalid date-time for any other text, a
  parser that throws instead, and two events.
\<close>

definition sampleMonthContext :: "int \<Rightarrow> MonthViewContext" where
  "sampleMonthContext fd =
     \<lparr>firstDay = fd,
      weekDayShort = [''Mon'', ''Tue'', ''Wed'', ''Thu'', ''Fri'', ''Sat'', ''Sun''],
      currentDateUnix = 1707955200000, timezone = ''UTC''\<rparr>"

text \<open>
  The same context with a table of names that starts with Sunday, the order in which
  JavaScript numbers the days of the week.
\<close>

definition sundayFirstContext :: "int \<Rightarrow> MonthViewContext" where
  "sundayFirstContext fd =
     (sampleMonthContext fd)
       \<lparr>weekDayShort := [''Sun'', ''Mon'', ''Tue'', ''Wed'', ''Thu'', ''Fri'', ''Sat'']\<rparr>"

definition sampleParse :: "DateType \<Rightarrow> string \<Rightarrow> string + ParsedDateTime" where
  "sampleParse s tz =
     (case s of
        DateNumber unix \<Rightarrow> Inr (ValidDateTime unix)
      | DateString text \<Rightarrow>
          if text = ''2024-02-15'' then Inr (ValidDateTime 1707955200000)
          else Inr InvalidDateTime)"

definition throwingParse :: "DateType \<Rightarrow> string \<Rightarrow> string + ParsedDateTime" where
  "throwingParse s tz =
     (case sampleParse s tz of
        Inr InvalidDateTime \<Rightarrow> Inl ''unparsable''
      | parsed \<Rightarrow> parsed)"

definition goodEvent :: EventItem where
  "goodEvent =
     \<lparr>id' = ''a'', start = DateString ''2024-02-15'', end' = DateString ''2024-02-15'',
      title = Some ''Review'', color = None, titleColor = None, resourceId = None\<rparr>"

definition badEvent :: EventItem where
  "badEvent = goodEvent\<lparr>id' := ''b'', EventItem.start := DateString ''next week''\<rparr>"

definition sampleMonthProps :: "(unit, unit, unit, unit) MonthViewProps" where
  "sampleMonthProps =
     \<lparr>MonthViewProps.dateUnix = 1707955200000, MonthViewProps.events = [goodEvent, badEvent],
      MonthViewProps.onPressDay = None, MonthViewProps.onPressEvent = None,
      MonthViewProps.renderEvent = None, MonthViewProps.renderDayItem = None\<rparr>"

text \<open>The context of a body in month mode, with one page and no resource scrolling.\<close>

definition sampleCalendarEnv :: "(unit, unit, unit) CalendarBodyEnv" where
  "sampleCalendarEnv =
     \<lparr>numberOfDays = 30, onPressDayNumber = Some (), CalendarBodyEnv.onPressEvent = None,
      CalendarBodyEnv.renderEvent = None, enableResourceScroll = False\<rparr>"

definition sampleExtra :: "(unit, unit) ExtraData" where
  "sampleExtra =
     \<lparr>columns = 1, visibleDatesArray = [1706745600000],
      ExtraData.renderDraggableEvent = None, ExtraData.resources = None\<rparr>"

section \<open>Properties\<close>

subsection \<open>Rounding\<close>

















subsection \<open>Vertical geometry of an event block\<close>

lemma data_totalDuration:
  "totalDuration (data zone ctx props i) =
     (if startMinutesOrDefault i - BodyContext.start ctx < 0
      then min (duration i) (BodyContext.end' ctx - BodyContext.start ctx)
             + (startMinutesOrDefault i - BodyContext.start ctx)
      else min (duration i) (BodyContext.end' ctx - BodyContext.start ctx))"
  by (simp add: data_def Let_def)


lemma EventItem_FC_packed:
  "internal (event props) = Some i \<Longrightarrow>
     \<exists>v. EventItem_FC zone ctx props = Inr v
       \<and> top v = topPercent ctx (data zone ctx props i)
       \<and> height v = heightPercent ctx (data zone ctx props i)"
  by (simp add: EventItem_FC_def Let_def)

lemma percent_Some:
  "t \<noteq> 0 \<Longrightarrow> map_option (\<lambda>q. q * 100) (jsDiv x t) = Some (x / t * 100)"
  by (simp add: jsDiv_def)





text \<open>
  C10, as amended. For a packed event whose visible part is empty
  (\<open>startMinutes + duration \<le> start\<close>) and a visible range with \<open>start < end\<close>, the clamped
  duration is at most zero, and negative when \<open>startMinutes + duration < start\<close>; the
  component returns a block (no error), and the height of that block,
  \<open>(totalDuration - 1) / timeRange * 100\<close>, is negative.
\<close>

theorem eventItem_hidden_event:
  assumes before: "startMinutesOrDefault i + duration i \<le> BodyContext.start ctx"
    and range: "BodyContext.start ctx < BodyContext.end' ctx"
    and packed: "internal (event props) = Some i"
  shows "totalDuration (data zone ctx props i) \<le> 0
     \<and> (startMinutesOrDefault i + duration i < BodyContext.start ctx
          \<longrightarrow> totalDuration (data zone ctx props i) < 0)
     \<and> (\<exists>v h. EventItem_FC zone ctx props = Inr v \<and> height v = Some h
            \<and> h = (totalDuration (data zone ctx props i) - 1) / timeRange ctx * 100 \<and> h < 0)"
proof -
  let ?td = "totalDuration (data zone ctx props i)"
  have le: "?td \<le> startMinutesOrDefault i + duration i - BodyContext.start ctx"
    unfolding data_totalDuration using before by (auto simp: min_def)
  have nonpos: "?td \<le> 0" using le before by linarith
  have neg: "startMinutesOrDefault i + duration i < BodyContext.start ctx \<longrightarrow> ?td < 0"
    using le by linarith
  have r0: "0 < timeRange ctx" using range by (simp add: timeRange_def)
  have h: "heightPercent ctx (data zone ctx props i) = Some ((?td - 1) / timeRange ctx * 100)"
    using r0 by (simp add: heightPercent_def percent_Some)
  have hneg: "(?td - 1) / timeRange ctx * 100 < 0"
    using nonpos r0 by (simp add: field_simps)
  obtain v where v: "EventItem_FC zone ctx props = Inr v"
      "height v = heightPercent ctx (data zone ctx props i)"
    using EventItem_FC_packed [OF packed, of zone ctx] by blast
  show ?thesis using nonpos neg v h hneg by auto
qed

text \<open>An event from 07:00 to 07:30 before a range that starts at 08:00.\<close>

theorem eventItem_hidden_event_witness:
  "startMinutesOrDefault (earlyInternal 30) + duration (earlyInternal 30)
      < BodyContext.start lateContext
   \<and> BodyContext.start lateContext < BodyContext.end' lateContext
   \<and> internal (event (earlyProps 30)) = Some (earlyInternal 30)
   \<and> totalDuration (data utc lateContext (earlyProps 30) (earlyInternal 30)) < 0
   \<and> (\<exists>v h. EventItem_FC utc lateContext (earlyProps 30) = Inr v \<and> height v = Some h \<and> h < 0)"
proof -
  have before: "startMinutesOrDefault (earlyInternal 30) + duration (earlyInternal 30)
      < BodyContext.start lateContext"
    by (simp add: lateContext_def earlyInternal_def sampleContext_def sampleInternal_def
          startMinutesOrDefault_def)
  have range: "BodyContext.start lateContext < BodyContext.end' lateContext"
    by (simp add: lateContext_def sampleContext_def)
  have packed: "internal (event (earlyProps 30)) = Some (earlyInternal 30)"
    by (simp add: earlyProps_def)
  show ?thesis
    using before range packed
      eventItem_hidden_event [of "earlyInternal 30" lateContext "earlyProps 30" utc]
    by auto
qed

text \<open>
  The claim as written fails for the event from 07:00 to 08:00: its visible part is empty
  (\<open>startMinutes + duration = start\<close>) and its clamped duration is zero, not negative.
\<close>

theorem event_ending_at_range_start_zero_duration:
  "startMinutesOrDefault (earlyInternal 60) + duration (earlyInternal 60)
      \<le> BodyContext.start lateContext
   \<and> totalDuration (data utc lateContext (earlyProps 60) (earlyInternal 60)) = 0"
  by (simp add: data_totalDuration lateContext_def earlyInternal_def sampleContext_def
        sampleInternal_def startMinutesOrDefault_def)

subsection \<open>The day offset of an event block\<close>

lemma data_diffDays:
  "diffDays (data zone ctx props i) =
     (let e = EventItemInternal.startUnix i; s = EventItemProps.startUnix props;
          d = (e - s) div MILLISECONDS_IN_DAY
      in if e < s then walkDays zone (visibleDates props) 1 e s d
         else walkDays zone (visibleDates props) (- 1) s e d)"
  by (simp add: data_def Let_def split: prod.splits)

text \<open>
  A walk changes the counter once for every day of the walk that the map does not hold.
\<close>

lemma walkDays_hidden:
  "walkDays zone vis delta a b acc =
     acc + delta * int (length (filter (\<lambda>d. vis d = None) (spec_dayStarts zone a b)))"
proof (induction zone vis delta a b acc rule: walkDays.induct)
  case (1 zone vis delta a b acc)
  show ?case
  proof (cases "a < b")
    case True
    have days: "spec_dayStarts zone a b
        = startOfDayIn zone a # spec_dayStarts zone (plusDaysIn zone a 1) b"
      using True by (subst spec_dayStarts.simps) simp
    have "walkDays zone vis delta a b acc
        = walkDays zone vis delta (plusDaysIn zone a 1) b
            (if vis (startOfDayIn zone a) = None then acc + delta else acc)"
      using True
      by (subst walkDays.simps) (simp add: toMillis_def parseDateTime_def Let_def)
    also have "\<dots> = (if vis (startOfDayIn zone a) = None then acc + delta else acc)
        + delta * int (length (filter (\<lambda>d. vis d = None)
                        (spec_dayStarts zone (plusDaysIn zone a 1) b)))"
      using "1.IH" [OF True] by (simp add: toMillis_def parseDateTime_def Let_def)
    also have "\<dots> = acc + delta * int (length (filter (\<lambda>d. vis d = None)
                        (spec_dayStarts zone a b)))"
      unfolding days by (simp add: algebra_simps)
    finally show ?thesis .
  next
    case False
    then show ?thesis
      by (simp add: walkDays.simps [of zone vis delta a b] spec_dayStarts.simps [of zone a b])
  qed
qed

lemma hidden_count:
  "int (length (filter (\<lambda>d. vis d = None) days))
     = int (length days) - int (length (filter (\<lambda>d. vis d \<noteq> None) days))"
  using sum_length_filter_compl [of "\<lambda>d. vis d \<noteq> None" days] by simp

text \<open>
  The counter starts from the whole days of 86400000 milliseconds between the two
  instants. So \<open>diffDays\<close> is the signed number of visible days, off by the difference
  between the calendar days walked and those whole days.
\<close>

lemma data_diffDays_later:
  assumes "EventItemProps.startUnix props \<le> EventItemInternal.startUnix i"
  shows "diffDays (data zone ctx props i)
     = spec_signedVisibleColumns zone (visibleDates props)
         (EventItemProps.startUnix props) (EventItemInternal.startUnix i)
       - (int (length (spec_dayStarts zone (EventItemProps.startUnix props)
                         (EventItemInternal.startUnix i)))
          - (EventItemInternal.startUnix i - EventItemProps.startUnix props)
              div MILLISECONDS_IN_DAY)"
  using assms
  by (simp add: data_diffDays Let_def walkDays_hidden hidden_count
        spec_signedVisibleColumns_def spec_visibleColumns_def)

lemma data_diffDays_earlier:
  assumes "EventItemInternal.startUnix i < EventItemProps.startUnix props"
  shows "diffDays (data zone ctx props i)
     = spec_signedVisibleColumns zone (visibleDates props)
         (EventItemProps.startUnix props) (EventItemInternal.startUnix i)
       + (int (length (spec_dayStarts zone (EventItemInternal.startUnix i)
                         (EventItemProps.startUnix props)))
          + (EventItemInternal.startUnix i - EventItemProps.startUnix props)
              div MILLISECONDS_IN_DAY)"
  using assms
  by (simp add: data_diffDays Let_def walkDays_hidden hidden_count
        spec_signedVisibleColumns_def spec_visibleColumns_def)

text \<open>
  In a zone without summer time every day has 86400000 milliseconds, and for two instants
  a whole number of days apart \<open>diffDays\<close> is the signed number of visible days.
\<close>

lemma plusDaysIn_fixed:
  "summerUntil zone \<le> summerFrom zone \<Longrightarrow> plusDaysIn zone d n = d + n * MILLISECONDS_IN_DAY"
  by (simp add: plusDaysIn_def fromLocal_def offset_def)

lemma spec_dayStarts_length_fixed:
  assumes fixed: "summerUntil zone \<le> summerFrom zone"
  shows "length (spec_dayStarts zone a (a + int n * MILLISECONDS_IN_DAY)) = n"
proof (induction n arbitrary: a)
  case 0
  show ?case by (simp add: spec_dayStarts.simps [of zone a a])
next
  case (Suc n)
  let ?b = "(a + MILLISECONDS_IN_DAY) + int n * MILLISECONDS_IN_DAY"
  have limit: "a + int (Suc n) * MILLISECONDS_IN_DAY = ?b"
    by (simp add: algebra_simps)
  have "a < ?b"
    by (simp add: MILLISECONDS_IN_DAY_def add_pos_nonneg)
  then have "spec_dayStarts zone a ?b
      = startOfDayIn zone a # spec_dayStarts zone (plusDaysIn zone a 1) ?b"
    by (subst spec_dayStarts.simps) (simp only: if_True)
  also have "plusDaysIn zone a 1 = a + MILLISECONDS_IN_DAY"
    by (simp add: plusDaysIn_fixed [OF fixed])
  finally have "length (spec_dayStarts zone a ?b)
      = Suc (length (spec_dayStarts zone (a + MILLISECONDS_IN_DAY) ?b))"
    by simp
  then show ?case
    unfolding limit using Suc.IH [of "a + MILLISECONDS_IN_DAY"] by simp
qed

lemma whole_days_span:
  assumes "MILLISECONDS_IN_DAY dvd b - a" "a \<le> b"
  shows "b = a + int (nat ((b - a) div MILLISECONDS_IN_DAY)) * MILLISECONDS_IN_DAY"
proof -
  have "0 \<le> (b - a) div MILLISECONDS_IN_DAY"
    using assms(2) by (simp add: MILLISECONDS_IN_DAY_def pos_imp_zdiv_nonneg_iff)
  then show ?thesis
    using assms(1) by (metis add.commute diff_add_cancel dvd_div_mult_self nat_0_le)
qed

lemma eventItem_diffDays_whole_days:
  assumes fixed: "summerUntil zone \<le> summerFrom zone"
    and whole: "MILLISECONDS_IN_DAY
                  dvd EventItemInternal.startUnix i - EventItemProps.startUnix props"
  shows "diffDays (data zone ctx props i)
           = spec_signedVisibleColumns zone (visibleDates props)
               (EventItemProps.startUnix props) (EventItemInternal.startUnix i)"
proof (cases "EventItemInternal.startUnix i < EventItemProps.startUnix props")
  case True
  let ?e = "EventItemInternal.startUnix i" and ?s = "EventItemProps.startUnix props"
  have dvd: "MILLISECONDS_IN_DAY dvd ?s - ?e"
    using whole by (metis dvd_minus_iff minus_diff_eq)
  have span: "?s = ?e + int (nat ((?s - ?e) div MILLISECONDS_IN_DAY)) * MILLISECONDS_IN_DAY"
    using whole_days_span [OF dvd] True by simp
  have len: "int (length (spec_dayStarts zone ?e ?s)) = (?s - ?e) div MILLISECONDS_IN_DAY"
  proof -
    have "0 \<le> (?s - ?e) div MILLISECONDS_IN_DAY"
      using True by (simp add: MILLISECONDS_IN_DAY_def pos_imp_zdiv_nonneg_iff)
    then show ?thesis
      using spec_dayStarts_length_fixed
              [OF fixed, of ?e "nat ((?s - ?e) div MILLISECONDS_IN_DAY)"] span
      by simp
  qed
  have neg: "(?e - ?s) div MILLISECONDS_IN_DAY = - ((?s - ?e) div MILLISECONDS_IN_DAY)"
    using dvd by (metis minus_diff_eq dvd_neg_div)
  show ?thesis
    using data_diffDays_earlier [OF True, of zone ctx] by (simp add: len neg)
next
  case False
  let ?e = "EventItemInternal.startUnix i" and ?s = "EventItemProps.startUnix props"
  have le: "?s \<le> ?e" using False by simp
  have span: "?e = ?s + int (nat ((?e - ?s) div MILLISECONDS_IN_DAY)) * MILLISECONDS_IN_DAY"
    using whole_days_span [OF whole le] .
  have len: "int (length (spec_dayStarts zone ?s ?e)) = (?e - ?s) div MILLISECONDS_IN_DAY"
  proof -
    have "0 \<le> (?e - ?s) div MILLISECONDS_IN_DAY"
      using le by (simp add: MILLISECONDS_IN_DAY_def pos_imp_zdiv_nonneg_iff)
    then show ?thesis
      using spec_dayStarts_length_fixed
              [OF fixed, of ?s "nat ((?e - ?s) div MILLISECONDS_IN_DAY)"] span
      by simp
  qed
  show ?thesis
    using data_diffDays_later [OF le, of zone ctx] by (simp add: len)
qed

text \<open>
  C3. The claim holds \<open>diffDays\<close> to be the signed number of visible day columns between
  the viewport start and the event start. The code starts the count from
  \<open>floor((eventStartUnix - startUnix) / MILLISECONDS_IN_DAY)\<close>, which is not the number
  of calendar days when a day of the walk has 23 hours. From 9 March 2024 to 11 March in
  New York there are two days, 47 hours: with all days visible \<open>diffDays\<close> is 1 where two
  visible columns lie between, and with the middle day hidden it is 0 where the claim
  says 1.
\<close>

theorem diffDays_across_spring_forward:
  "startOfDayIn newYork 1709960400000 = 1709960400000
   \<and> startOfDayIn newYork 1710129600000 = 1710129600000
   \<and> spec_dayStarts newYork 1709960400000 1710129600000 = [1709960400000, 1710046800000]
   \<and> spec_signedVisibleColumns newYork (visibleDates (marchProps True))
        (EventItemProps.startUnix (marchProps True)) (EventItemInternal.startUnix marchInternal)
        = 2
   \<and> diffDays (data newYork sampleContext (marchProps True) marchInternal) = 1
   \<and> spec_signedVisibleColumns newYork (visibleDates (marchProps False))
        (EventItemProps.startUnix (marchProps False)) (EventItemInternal.startUnix marchInternal)
        = 1
   \<and> diffDays (data newYork sampleContext (marchProps False) marchInternal) = 0"
proof -
  have s0: "startOfDayIn newYork 1709960400000 = 1709960400000"
    and s1: "startOfDayIn newYork 1710046800000 = 1710046800000"
    and s2: "startOfDayIn newYork 1710129600000 = 1710129600000"
    by (simp_all add: startOfDayIn_def fromLocal_def offset_def newYork_def
          MILLISECONDS_IN_DAY_def Let_def)
  have p0: "plusDaysIn newYork 1709960400000 1 = 1710046800000"
    and p1: "plusDaysIn newYork 1710046800000 1 = 1710129600000"
    by (simp_all add: plusDaysIn_def fromLocal_def offset_def newYork_def
          MILLISECONDS_IN_DAY_def)
  have days: "spec_dayStarts newYork 1709960400000 1710129600000
      = [1709960400000, 1710046800000]"
    by (simp add: spec_dayStarts.simps [of newYork 1709960400000]
          spec_dayStarts.simps [of newYork 1710046800000]
          spec_dayStarts.simps [of newYork 1710129600000] s0 s1 p0 p1)
  have su: "EventItemProps.startUnix (marchProps v) = 1709960400000" for v
    by (simp add: marchProps_def)
  have eu: "EventItemInternal.startUnix marchInternal = 1710129600000"
    by (simp add: marchInternal_def)
  have spec_all: "spec_signedVisibleColumns newYork (visibleDates (marchProps True))
      1709960400000 1710129600000 = 2"
    by (simp add: spec_signedVisibleColumns_def spec_visibleColumns_def days marchProps_def)
  have spec_mid: "spec_signedVisibleColumns newYork (visibleDates (marchProps False))
      1709960400000 1710129600000 = 1"
    by (simp add: spec_signedVisibleColumns_def spec_visibleColumns_def days marchProps_def)
  have code_all: "diffDays (data newYork sampleContext (marchProps True) marchInternal) = 1"
    using data_diffDays_later [of "marchProps True" marchInternal newYork sampleContext]
    by (simp add: su eu days spec_all MILLISECONDS_IN_DAY_def)
  have code_mid: "diffDays (data newYork sampleContext (marchProps False) marchInternal) = 0"
    using data_diffDays_later [of "marchProps False" marchInternal newYork sampleContext]
    by (simp add: su eu days spec_mid MILLISECONDS_IN_DAY_def)
  show ?thesis
    using s0 s2 days spec_all spec_mid code_all code_mid by (simp add: su eu)
qed

subsection \<open>Two events side by side\<close>

lemma availableWidth_colWidth:
  "availableWidth ctx props = Some aw \<Longrightarrow>
     jsDiv (columnWidth ctx) (childColumns ctx props) = Some (aw + rightEdgeSpacing ctx)
     \<and> childColumns ctx props \<noteq> 0"
  by (auto simp: availableWidth_def jsDiv_def split: if_splits)

lemma widthPercent_two_columns:
  assumes "total' i = Some 2" "columnSpan i = Some 1"
    and "availableWidth ctx props = Some aw" "aw \<noteq> 0"
  shows "widthPercent ctx props i = Some ((aw / 2 - overlapEventsSpacing ctx / 2) / aw)"
  using assms by (simp add: widthPercent_def truthy_def jsDiv_def)

lemma eventWidth_two_columns:
  assumes "total' i = Some 2" "columnSpan i = Some 1"
    and "availableWidth ctx props = Some aw" "aw \<noteq> 0"
  shows "eventWidth ctx props i = Some (aw / 2 - overlapEventsSpacing ctx / 2)"
  using assms widthPercent_two_columns [OF assms]
  by (simp add: eventWidth_def)

lemma startOffset_finite:
  assumes "childColumns ctx props \<noteq> 0"
  shows "\<exists>r. (if BodyContext.enableResourceScroll ctx
               then jsRem (the (resourceIndex i)) (resourcePerPage ctx)
               else Some (the (resourceIndex i))) = Some r"
  using assms by (auto simp: childColumns_def jsRem_def)

lemma eventPosX_columns:
  assumes aw: "availableWidth ctx props = Some aw"
    and x: "\<not> truthy (xOffsetPercentage i)"
  shows "eventPosX ctx props i d =
           (if truthy (columnSpan i) \<and> truthy (index i)
            then map_option (\<lambda>w. baseLeft ctx props i d
                     + (w + overlapEventsSpacing ctx) * (the (index i) / the (columnSpan i)))
                   (eventWidth ctx props i)
            else Some (baseLeft ctx props i d))"
proof -
  have cc: "childColumns ctx props \<noteq> 0"
    using availableWidth_colWidth [OF aw] by simp
  then have col: "jsDiv (columnWidth ctx) (childColumns ctx props)
      = Some (columnWidth ctx / childColumns ctx props)"
    by (simp add: jsDiv_def)
  obtain r where r: "(if BodyContext.enableResourceScroll ctx
               then jsRem (the (resourceIndex i)) (resourcePerPage ctx)
               else Some (the (resourceIndex i))) = Some r"
    using startOffset_finite [OF cc] by blast
  show ?thesis
    using x r by (auto simp: eventPosX_def col baseLeft_def Let_def split: if_splits)
qed


lemma baseLeft_cong:
  assumes "diffDays d0 = diffDays d1" "resourceIndex i0 = resourceIndex i1"
    and "totalResources p0 = totalResources p1"
  shows "baseLeft ctx p0 i0 d0 = baseLeft ctx p1 i1 d1"
  using assms by (simp add: baseLeft_def childColumns_def)

lemma availableWidth_cong:
  "totalResources p0 = totalResources p1 \<Longrightarrow> availableWidth ctx p0 = availableWidth ctx p1"
  by (simp add: availableWidth_def childColumns_def)

text \<open>
  C5. Two packed events of one slot, with \<open>total = 2\<close>, \<open>columnSpan = 1\<close> and the indices
  0 and 1, no \<open>xOffsetPercentage\<close>, rendered with the same viewport properties, a finite
  positive available width \<open>aw\<close> and a spacing that is not negative. Each width fraction is
  \<open>eventWidth / aw\<close> with \<open>eventWidth = aw / 2 - overlapEventsSpacing / 2\<close>; the two
  fractions sum to at most 1; and the second block is placed
  \<open>(eventWidth + overlapEventsSpacing) * (index / columnSpan)\<close> to the right of the first,
  so that it starts where the first has ended or later.
\<close>

theorem eventItem_two_columns:
  assumes e0: "total' i0 = Some 2" "columnSpan i0 = Some 1" "index i0 = Some 0"
      "\<not> truthy (xOffsetPercentage i0)"
    and e1: "total' i1 = Some 2" "columnSpan i1 = Some 1" "index i1 = Some 1"
      "\<not> truthy (xOffsetPercentage i1)"
    and slot: "EventItemInternal.startUnix i0 = EventItemInternal.startUnix i1"
      "resourceIndex i0 = resourceIndex i1"
    and view: "EventItemProps.startUnix p0 = EventItemProps.startUnix p1"
      "visibleDates p0 = visibleDates p1" "totalResources p0 = totalResources p1"
    and geom: "availableWidth ctx p0 = Some aw" "0 < aw" "0 \<le> overlapEventsSpacing ctx"
  shows "\<exists>ew x0 x1. ew = aw / 2 - overlapEventsSpacing ctx / 2
      \<and> widthPercent ctx p0 i0 = Some (ew / aw) \<and> widthPercent ctx p1 i1 = Some (ew / aw)
      \<and> ew / aw + ew / aw \<le> 1
      \<and> eventWidth ctx p0 i0 = Some ew \<and> eventWidth ctx p1 i1 = Some ew
      \<and> eventPosX ctx p0 i0 (data zone ctx p0 i0) = Some x0
      \<and> eventPosX ctx p1 i1 (data zone ctx p1 i1) = Some x1
      \<and> x1 = x0 + (ew + overlapEventsSpacing ctx) * (1 / 1)
      \<and> x0 + ew \<le> x1"
proof -
  define ew where "ew = aw / 2 - overlapEventsSpacing ctx / 2"
  have aw0: "aw \<noteq> 0" using geom(2) by simp
  have aw1: "availableWidth ctx p1 = Some aw"
    using geom(1) availableWidth_cong [OF view(3), of ctx] by simp
  have w0: "widthPercent ctx p0 i0 = Some (ew / aw)"
    unfolding ew_def by (rule widthPercent_two_columns [OF e0(1,2) geom(1) aw0])
  have w1: "widthPercent ctx p1 i1 = Some (ew / aw)"
    unfolding ew_def by (rule widthPercent_two_columns [OF e1(1,2) aw1 aw0])
  have sum: "ew / aw + ew / aw \<le> 1"
  proof -
    have "ew / aw + ew / aw = (aw - overlapEventsSpacing ctx) / aw"
      by (simp add: ew_def add_divide_distrib [symmetric])
    also have "\<dots> \<le> 1" using geom(2,3) by simp
    finally show ?thesis .
  qed
  have ew0: "eventWidth ctx p0 i0 = Some ew"
    unfolding ew_def by (rule eventWidth_two_columns [OF e0(1,2) geom(1) aw0])
  have ew1: "eventWidth ctx p1 i1 = Some ew"
    unfolding ew_def by (rule eventWidth_two_columns [OF e1(1,2) aw1 aw0])
  have dd: "diffDays (data zone ctx p0 i0) = diffDays (data zone ctx p1 i1)"
    by (simp add: data_diffDays Let_def slot(1) view(1,2))
  define x0 where "x0 = baseLeft ctx p0 i0 (data zone ctx p0 i0)"
  have left: "baseLeft ctx p1 i1 (data zone ctx p1 i1) = x0"
    unfolding x0_def by (rule baseLeft_cong [OF dd slot(2) view(3), symmetric])
  have p0: "eventPosX ctx p0 i0 (data zone ctx p0 i0) = Some x0"
    using eventPosX_columns [OF geom(1) e0(4), of "data zone ctx p0 i0"]
    by (simp add: e0(3) truthy_def x0_def)
  have p1: "eventPosX ctx p1 i1 (data zone ctx p1 i1)
      = Some (x0 + (ew + overlapEventsSpacing ctx) * (1 / 1))"
    using eventPosX_columns [OF aw1 e1(4), of "data zone ctx p1 i1"]
    by (simp add: e1(2,3) truthy_def ew1 left)
  have apart: "x0 + ew \<le> x0 + (ew + overlapEventsSpacing ctx) * (1 / 1)"
    using geom(3) by simp
  show ?thesis
    using ew_def w0 w1 sum ew0 ew1 p0 p1 apart by blast
qed

text \<open>The two sample events: an available width of 100 and a spacing of 2.\<close>

theorem eventItem_two_columns_witness:
  "(total' sampleInternal = Some 2 \<and> columnSpan sampleInternal = Some 1
      \<and> index sampleInternal = Some 0 \<and> \<not> truthy (xOffsetPercentage sampleInternal))
   \<and> (total' secondInternal = Some 2 \<and> columnSpan secondInternal = Some 1
      \<and> index secondInternal = Some 1 \<and> \<not> truthy (xOffsetPercentage secondInternal))
   \<and> availableWidth sampleContext sampleProps = Some 100
   \<and> 0 \<le> overlapEventsSpacing sampleContext
   \<and> (\<exists>x0 x1. widthPercent sampleContext sampleProps sampleInternal = Some (49 / 100)
        \<and> widthPercent sampleContext secondProps secondInternal = Some (49 / 100)
        \<and> eventPosX sampleContext sampleProps sampleInternal
             (data utc sampleContext sampleProps sampleInternal) = Some x0
        \<and> eventPosX sampleContext secondProps secondInternal (data utc sampleContext secondProps secondInternal) = Some x1
        \<and> x1 = x0 + 51 \<and> x0 + 49 \<le> x1)"
proof -
  have e0: "total' sampleInternal = Some 2" "columnSpan sampleInternal = Some 1"
      "index sampleInternal = Some 0" "\<not> truthy (xOffsetPercentage sampleInternal)"
    by (simp_all add: sampleInternal_def truthy_def)
  have e1: "total' secondInternal = Some 2" "columnSpan secondInternal = Some 1"
      "index secondInternal = Some 1" "\<not> truthy (xOffsetPercentage secondInternal)"
    by (simp_all add: secondInternal_def sampleInternal_def truthy_def)
  have slot: "EventItemInternal.startUnix sampleInternal = EventItemInternal.startUnix secondInternal"
      "resourceIndex sampleInternal = resourceIndex secondInternal"
    by (simp_all add: secondInternal_def)
  have view: "EventItemProps.startUnix sampleProps = EventItemProps.startUnix secondProps"
      "visibleDates sampleProps = visibleDates secondProps"
      "totalResources sampleProps = totalResources secondProps"
    by (simp_all add: secondProps_def)
  have aw: "availableWidth sampleContext sampleProps = Some 100"
    by (simp add: availableWidth_def childColumns_def jsDiv_def truthy_def
          sampleContext_def sampleProps_def)
  have sp: "overlapEventsSpacing sampleContext = 2"
    by (simp add: sampleContext_def)
  show ?thesis
    using e0 e1 aw sp
      eventItem_two_columns [OF e0 e1 slot view aw, of utc]
    by (auto simp: sp)
qed


subsection \<open>What the callbacks of an event block receive\<close>

text \<open>
  C1, as amended. For every packed event, the block that the component renders calls the
  press and the long-press callback with the packed event as it was given, its
  \<open>_internal\<close> block included; the record without \<open>_internal\<close> is read only for the
  colour and the title of the default block.
\<close>

theorem eventItem_callbacks_receive_packed_event:
  assumes packed: "internal (event props) = Some i"
  shows "\<exists>v. EventItem_FC zone ctx props = Inr v
     \<and> (\<forall>f. EventItemProps.onPressEvent props = Some f
            \<longrightarrow> onPress v = Some (Some (f (event props))))
     \<and> (\<forall>g. onLongPressEvent props = Some g
            \<longrightarrow> (\<exists>h. onLongPress v = Some h
                   \<and> (\<forall>resEvent. h resEvent = Inr (g (event props) resEvent))))
     \<and> backgroundColor v = color (event props)
     \<and> (EventItemProps.renderEvent props = None
            \<longrightarrow> content v = DefaultText (title (event props)) (titleColor (event props)))"
  using packed
  by (auto simp: EventItem_FC_def Let_def onPressEvent'_def onLongPressEvent'_def)

text \<open>The sample callbacks return the event they receive.\<close>

theorem eventItem_callbacks_receive_packed_event_witness:
  "internal (event sampleProps) = Some sampleInternal
   \<and> (\<exists>v h. EventItem_FC utc sampleContext sampleProps = Inr v
        \<and> onPress v = Some (Some sampleEvent)
        \<and> onLongPress v = Some h \<and> h () = Inr sampleEvent
        \<and> internal sampleEvent = Some sampleInternal)"
proof -
  have packed: "internal (event sampleProps) = Some sampleInternal"
    by (simp add: sampleProps_def sampleEvent_def)
  have press: "EventItemProps.onPressEvent sampleProps = Some (\<lambda>e. e)"
    and long: "onLongPressEvent sampleProps = Some (\<lambda>e g. e)"
    and ev: "event sampleProps = sampleEvent"
    by (simp_all add: sampleProps_def)
  show ?thesis
    using packed press long ev
      eventItem_callbacks_receive_packed_event [OF packed, of utc sampleContext]
    by (auto simp: sampleEvent_def)
qed

text \<open>
  The claim as written fails: the press and the long-press handler hand the sample event
  to the callback with its \<open>_internal\<close> block, which is not the record without it.
\<close>

theorem press_callback_receives_internal:
  "onPressEvent' sampleProps = Some sampleEvent
   \<and> onLongPressEvent' sampleProps () = Inr sampleEvent
   \<and> internal sampleEvent = Some sampleInternal
   \<and> sampleEvent \<noteq> sampleEvent\<lparr>internal := None\<rparr>"
  by (simp add: onPressEvent'_def onLongPressEvent'_def sampleProps_def sampleEvent_def)

subsection \<open>The month page\<close>

text \<open>
  C9. For every page index and anchor instant the month page renders the month grid with
  an empty event list, and hands the anchor and the four callbacks on as they are.
\<close>

theorem monthViewBody_forwards:
  "MonthViewProps.events (MonthViewBody props) = []
   \<and> MonthViewProps.dateUnix (MonthViewBody props) = MonthViewBodyProps.dateUnix props
   \<and> MonthViewProps.onPressDay (MonthViewBody props) = MonthViewBodyProps.onPressDay props
   \<and> MonthViewProps.onPressEvent (MonthViewBody props) = MonthViewBodyProps.onPressEvent props
   \<and> MonthViewProps.renderEvent (MonthViewBody props) = MonthViewBodyProps.renderEvent props
   \<and> MonthViewProps.renderDayItem (MonthViewBody props)
        = MonthViewBodyProps.renderDayItem props"
  by (simp add: MonthViewBody_def)

subsection \<open>The pages of the body\<close>

text \<open>
  C8, as amended. With resource scrolling the grid is a resource list and each of its
  pages is a resource page with the resources of that page, whatever the number of
  visible days. Without it the grid is the calendar list, whose pages come from
  \<open>_renderTimeSlots\<close>: a page whose start instant is missing from the visible-dates array
  renders nothing; a page whose start instant is there and is not 0 is rendered by the
  month page when the number of visible days is 30, and otherwise by the day page, which
  receives the page index, the start instant, the draggable-event renderer and the
  resources.
\<close>

theorem calendarBody_pages:
  "(enableResourceScroll env \<longrightarrow>
      gridListView env extra
        = (ResourceListView renderResourceItem :: ('pd, 'pe, 're, 'rd, 'rde, 'res) listView)
      \<and> (renderResourceItem resourceItems resourcePage
            :: ('pd, 'pe, 're, 'rd, 'rde, 'res) page) = BodyResourceItemPage resourceItems)
   \<and> (\<not> enableResourceScroll env \<longrightarrow>
      gridListView env extra
        = (CalendarListView (renderTimeSlots env) extra
             :: ('pd, 'pe, 're, 'rd, 'rde, 'res) listView)
      \<and> (jsIndex (visibleDatesArray extra) (idx * columns extra) = None
            \<longrightarrow> (renderTimeSlots env idx extra
                   :: ('pd, 'pe, 're, 'rd, 'rde, 'res) page option) = None)
      \<and> (jsIndex (visibleDatesArray extra) (idx * columns extra) = Some d \<and> d \<noteq> 0
            \<longrightarrow> (numberOfDays env = 30 \<longrightarrow>
                  (renderTimeSlots env idx extra
                     :: ('pd, 'pe, 're, 'rd, 'rde, 'res) page option)
                    = Some (MonthViewBodyPage
                        \<lparr>MonthViewBodyProps.pageIndex = idx * columns extra,
                         MonthViewBodyProps.dateUnix = d,
                         MonthViewBodyProps.onPressDay = onPressDayNumber env,
                         MonthViewBodyProps.onPressEvent = CalendarBodyEnv.onPressEvent env,
                         MonthViewBodyProps.renderEvent = CalendarBodyEnv.renderEvent env,
                         MonthViewBodyProps.renderDayItem = None\<rparr>))
              \<and> (numberOfDays env \<noteq> 30 \<longrightarrow>
                  (renderTimeSlots env idx extra
                     :: ('pd, 'pe, 're, 'rd, 'rde, 'res) page option)
                    = Some (BodyItemPage
                        \<lparr>BodyItemProps.pageIndex = idx * columns extra,
                         BodyItemProps.startUnix = d,
                         BodyItemProps.renderDraggableEvent
                           = ExtraData.renderDraggableEvent extra,
                         BodyItemProps.resources = ExtraData.resources extra\<rparr>))))"
  by (auto simp: gridListView_def renderResourceItem_def renderTimeSlots_def Let_def)

text \<open>
  The sample body without resource scrolling: index 0 has a start instant, index 1 has
  none. With resource scrolling its pages are resource pages.
\<close>

theorem calendarBody_pages_witness:
  "\<not> enableResourceScroll sampleCalendarEnv
   \<and> jsIndex (visibleDatesArray sampleExtra) (0 * columns sampleExtra) = Some 1706745600000
   \<and> (1706745600000 :: int) \<noteq> 0
   \<and> numberOfDays sampleCalendarEnv = 30
   \<and> (gridListView sampleCalendarEnv sampleExtra
        :: (unit, unit, unit, unit, unit, unit) listView)
       = CalendarListView (renderTimeSlots sampleCalendarEnv) sampleExtra
   \<and> (renderTimeSlots sampleCalendarEnv 0 sampleExtra
        :: (unit, unit, unit, unit, unit, unit) page option) = Some (MonthViewBodyPage
                \<lparr>MonthViewBodyProps.pageIndex = 0,
                 MonthViewBodyProps.dateUnix = 1706745600000,
                 MonthViewBodyProps.onPressDay = Some (),
                 MonthViewBodyProps.onPressEvent = None,
                 MonthViewBodyProps.renderEvent = None,
                 MonthViewBodyProps.renderDayItem = None\<rparr>)
   \<and> jsIndex (visibleDatesArray sampleExtra) (1 * columns sampleExtra) = None
   \<and> (renderTimeSlots sampleCalendarEnv 1 sampleExtra
        :: (unit, unit, unit, unit, unit, unit) page option) = None
   \<and> enableResourceScroll (sampleCalendarEnv\<lparr>enableResourceScroll := True\<rparr>)
   \<and> (gridListView (sampleCalendarEnv\<lparr>enableResourceScroll := True\<rparr>) sampleExtra
        :: (unit, unit, unit, unit, unit, unit) listView)
       = ResourceListView renderResourceItem"
proof -
  have plain: "\<not> enableResourceScroll sampleCalendarEnv"
    by (simp add: sampleCalendarEnv_def)
  have scroll: "enableResourceScroll (sampleCalendarEnv\<lparr>enableResourceScroll := True\<rparr>)"
    by simp
  have found: "jsIndex (visibleDatesArray sampleExtra) (0 * columns sampleExtra)
      = Some 1706745600000"
    by (simp add: jsIndex_def sampleExtra_def)
  have missing: "jsIndex (visibleDatesArray sampleExtra) (1 * columns sampleExtra) = None"
    by (simp add: jsIndex_def sampleExtra_def)
  have month: "numberOfDays sampleCalendarEnv = 30"
    by (simp add: sampleCalendarEnv_def)
  have cb: "onPressDayNumber sampleCalendarEnv = Some ()"
      "CalendarBodyEnv.onPressEvent sampleCalendarEnv = None"
      "CalendarBodyEnv.renderEvent sampleCalendarEnv = None"
    by (simp_all add: sampleCalendarEnv_def)
  note page0 = calendarBody_pages
      [where ?'pd = unit and ?'pe = unit and ?'re = unit and ?'rd = unit
         and ?'rde = unit and ?'res = unit
         and env = sampleCalendarEnv and extra = sampleExtra and idx = 0
         and d = 1706745600000]
  note page1 = calendarBody_pages
      [where ?'pd = unit and ?'pe = unit and ?'re = unit and ?'rd = unit
         and ?'rde = unit and ?'res = unit
         and env = sampleCalendarEnv and extra = sampleExtra and idx = 1]
  note resource = calendarBody_pages
      [where ?'pd = unit and ?'pe = unit and ?'re = unit and ?'rd = unit
         and ?'rde = unit and ?'res = unit
         and env = "sampleCalendarEnv\<lparr>enableResourceScroll := True\<rparr>"
         and extra = sampleExtra]
  have list: "(gridListView sampleCalendarEnv sampleExtra
        :: (unit, unit, unit, unit, unit, unit) listView)
       = CalendarListView (renderTimeSlots sampleCalendarEnv) sampleExtra"
    using plain page0 by blast
  have first: "(renderTimeSlots sampleCalendarEnv 0 sampleExtra
        :: (unit, unit, unit, unit, unit, unit) page option) = Some (MonthViewBodyPage
                \<lparr>MonthViewBodyProps.pageIndex = 0,
                 MonthViewBodyProps.dateUnix = 1706745600000,
                 MonthViewBodyProps.onPressDay = Some (),
                 MonthViewBodyProps.onPressEvent = None,
                 MonthViewBodyProps.renderEvent = None,
                 MonthViewBodyProps.renderDayItem = None\<rparr>)"
    using plain found month cb page0 by simp
  have second: "(renderTimeSlots sampleCalendarEnv 1 sampleExtra
        :: (unit, unit, unit, unit, unit, unit) page option) = None"
    using plain missing page1 by simp
  have resources: "(gridListView (sampleCalendarEnv\<lparr>enableResourceScroll := True\<rparr>)
          sampleExtra :: (unit, unit, unit, unit, unit, unit) listView)
       = ResourceListView renderResourceItem"
    using scroll resource by blast
  show ?thesis
    using plain found month list first missing second scroll resources by simp
qed

text \<open>
  The claim as written fails: in month mode the page of index 1 is not rendered by the
  month page, it is \<open>null\<close>; and in month mode with resource scrolling the grid is the
  resource list, whose pages are resource pages.
\<close>

theorem month_mode_page_null_or_resource_page:
  "numberOfDays sampleCalendarEnv = 30
   \<and> (renderTimeSlots sampleCalendarEnv 1 sampleExtra
        :: (unit, unit, unit, unit, unit, unit) page option) = None
   \<and> numberOfDays (sampleCalendarEnv\<lparr>enableResourceScroll := True\<rparr>) = 30
   \<and> (gridListView (sampleCalendarEnv\<lparr>enableResourceScroll := True\<rparr>) sampleExtra
        :: (unit, unit, unit, unit, unit, unit) listView)
       = ResourceListView renderResourceItem
   \<and> (renderResourceItem () 0 :: (unit, unit, unit, unit, unit, unit) page)
       = BodyResourceItemPage ()"
  by (simp add: renderTimeSlots_def gridListView_def renderResourceItem_def jsIndex_def
        sampleCalendarEnv_def sampleExtra_def)

subsection \<open>The weekday header\<close>

text \<open>For a first day from 1 to 7 the remainder is the modulus, and the labels are as claimed.\<close>

lemma weekDays_firstDay_1_to_7:
  assumes "1 \<le> firstDay env" "firstDay env \<le> 7"
  shows "weekDays env
     = map (\<lambda>i. jsIndex (weekDayShort env) ((firstDay env + int i - 1) mod 7)) [0 ..< 7]"
proof -
  have "jsRemInt (firstDay env + int i - 1) 7 = (firstDay env + int i - 1) mod 7" for i
    using assms by (simp add: jsRemInt_def sgn_if)
  then show ?thesis by (simp add: weekDays_def)
qed

text \<open>
  With a table of seven names the header is then the table rotated by \<open>firstDay - 1\<close>
  places: the table itself for the first day 1.
\<close>

lemma weekDays_rotation:
  assumes fd: "1 \<le> firstDay env" "firstDay env \<le> 7"
    and len: "length (weekDayShort env) = 7"
  shows "weekDays env = map Some (rotate (nat (firstDay env - 1)) (weekDayShort env))"
proof (rule nth_equalityI)
  show "length (weekDays env)
      = length (map Some (rotate (nat (firstDay env - 1)) (weekDayShort env)))"
    by (simp add: weekDays_def len)
next
  fix i
  assume "i < length (weekDays env)"
  then have i: "i < 7" by (simp add: weekDays_def)
  let ?k = "(firstDay env + int i - 1) mod 7"
  have k: "0 \<le> ?k" "?k < 7" by simp_all
  have rem: "jsRemInt (firstDay env + int i - 1) 7 = ?k"
    using fd by (simp add: jsRemInt_def sgn_if)
  have "firstDay env + int i - 1 = int (nat (firstDay env - 1) + i)"
    using fd by simp
  then have "?k = int ((nat (firstDay env - 1) + i) mod 7)"
    by (simp only: zmod_int of_nat_numeral)
  then have nat_k: "nat ?k = (nat (firstDay env - 1) + i) mod 7"
    by (simp only: nat_int)
  have "weekDays env ! i = jsIndex (weekDayShort env) ?k"
    using i by (simp add: weekDays_def rem)
  also have "\<dots> = Some (weekDayShort env ! nat ?k)"
    using k by (simp add: jsIndex_def len)
  also have "\<dots> = map Some (rotate (nat (firstDay env - 1)) (weekDayShort env)) ! i"
    using i by (simp add: nth_rotate len nat_k)
  finally show "weekDays env ! i
      = map Some (rotate (nat (firstDay env - 1)) (weekDayShort env)) ! i" .
qed

text \<open>
  Whether the header begins with the configured first day depends on the order of the
  table, which the locale supplies. Let \<open>name w\<close> be the short name of the weekday \<open>w\<close>
  (1 for Monday to 7 for Sunday). With a table that starts with Monday, position \<open>i\<close>
  shows the name of the day \<open>i\<close> days after the first day; with a table that starts with
  Sunday it shows the name of the day before that one.
\<close>

lemma jsIndex_seven:
  assumes "0 \<le> k" "k < 7" and "length xs = 7"
  shows "jsIndex (map name xs) k = Some (name (xs ! nat k))"
proof -
  have "nat k < length xs" using assms by simp
  then show ?thesis using assms by (simp add: jsIndex_def)
qed

lemma weekDays_monday_first_table:
  assumes fd: "1 \<le> firstDay env" "firstDay env \<le> 7"
    and table: "weekDayShort env = map name [1, 2, 3, 4, 5, 6, 7 :: int]"
    and i: "i < 7"
  shows "weekDays env ! i = Some (name ((firstDay env + int i - 1) mod 7 + 1))"
proof -
  let ?k = "(firstDay env + int i - 1) mod 7"
  have k: "0 \<le> ?k" "?k < 7" by simp_all
  then have cases: "?k = 0 \<or> ?k = 1 \<or> ?k = 2 \<or> ?k = 3 \<or> ?k = 4 \<or> ?k = 5 \<or> ?k = 6"
    by linarith
  have "weekDays env ! i = jsIndex (weekDayShort env) ?k"
    using i by (simp add: weekDays_firstDay_1_to_7 [OF fd])
  also have "\<dots> = Some (name ([1, 2, 3, 4, 5, 6, 7] ! nat ?k))"
    unfolding table by (rule jsIndex_seven [OF k]) simp
  also have "[1, 2, 3, 4, 5, 6, 7 :: int] ! nat ?k = ?k + 1"
    using cases by (elim disjE) simp_all
  finally show ?thesis .
qed

lemma weekDays_sunday_first_table:
  assumes fd: "1 \<le> firstDay env" "firstDay env \<le> 7"
    and table: "weekDayShort env = map name [7, 1, 2, 3, 4, 5, 6 :: int]"
    and i: "i < 7"
  shows "weekDays env ! i = Some (name ((firstDay env + int i - 2) mod 7 + 1))"
proof -
  let ?k = "(firstDay env + int i - 1) mod 7"
  have k: "0 \<le> ?k" "?k < 7" by simp_all
  then have cases: "?k = 0 \<or> ?k = 1 \<or> ?k = 2 \<or> ?k = 3 \<or> ?k = 4 \<or> ?k = 5 \<or> ?k = 6"
    by linarith
  have shift: "(firstDay env + int i - 2) mod 7 = (?k - 1) mod 7"
    by (simp add: mod_diff_left_eq algebra_simps)
  have "weekDays env ! i = jsIndex (weekDayShort env) ?k"
    using i by (simp add: weekDays_firstDay_1_to_7 [OF fd])
  also have "\<dots> = Some (name ([7, 1, 2, 3, 4, 5, 6] ! nat ?k))"
    unfolding table by (rule jsIndex_seven [OF k]) simp
  also have "[7, 1, 2, 3, 4, 5, 6 :: int] ! nat ?k = (?k - 1) mod 7 + 1"
    using cases by (elim disjE) simp_all
  finally show ?thesis by (simp only: shift)
qed

text \<open>
  C7. The claim lets the header begin with the configured first day, whatever the order
  of the table. With Monday (1) as the first day and a table that starts with Sunday the
  index of position 0 is \<open>(1 + 0 - 1) % 7 = 0\<close>: the header is the table in its own order and
  begins with the name of Sunday, the name of Monday being at position 1, while the first
  column of the grid below it is a Monday (29 January 2024 for February 2024).
\<close>

theorem weekDays_monday_with_sunday_first_table:
  "firstDay (sundayFirstContext 1) = 1
   \<and> weekDays (sundayFirstContext 1)
       = [Some ''Sun'', Some ''Mon'', Some ''Tue'', Some ''Wed'', Some ''Thu'', Some ''Fri'',
          Some ''Sat'']
   \<and> startOfCalendar (sundayFirstContext 1) 1707955200000 = 1706486400000
   \<and> weekday 1706486400000 = 1"
proof -
  have header: "weekDays (sundayFirstContext 1)
       = [Some ''Sun'', Some ''Mon'', Some ''Tue'', Some ''Wed'', Some ''Thu'', Some ''Fri'',
          Some ''Sat'']"
    by (simp add: weekDays_def sundayFirstContext_def sampleMonthContext_def jsIndex_def
          jsRemInt_def upt_rec)
  have fd: "firstDay (sundayFirstContext 1) = 1"
    by (simp add: sundayFirstContext_def sampleMonthContext_def)
  have iso: "toISODate 1707955200000 = (2024, 2, 15)"
    by code_simp
  have first_of_month: "daysFromCivil 2024 2 1 = 19754"
    by code_simp
  have som: "startOfMonth (parseDateTime 1707955200000) = 1706745600000"
    by (simp add: parseDateTime_def startOfMonth_def iso first_of_month
          MILLISECONDS_IN_DAY_def)
  have wd: "weekday 1706745600000 = 4"
    by (simp add: weekday_def dayNumber_def MILLISECONDS_IN_DAY_def)
  have origin: "startOfCalendar (sundayFirstContext 1) 1707955200000 = 1706486400000"
    by (simp add: startOfCalendar_def diffToFirstDay_def som wd fd jsRemInt_def minusDays_def
          MILLISECONDS_IN_DAY_def)
  have monday: "weekday 1706486400000 = 1"
    by (simp add: weekday_def dayNumber_def MILLISECONDS_IN_DAY_def)
  show ?thesis
    using fd header origin monday by blast
qed

subsection \<open>Events with a start that cannot be parsed\<close>

text \<open>
  A start cannot be parsed when the parser throws or when it returns an invalid
  date-time. In both cases the event is in no cell.
\<close>

lemma dayEvents_excludes:
  "parse (EventItem.start ev) tz = Inl err \<or> parse (EventItem.start ev) tz = Inr InvalidDateTime
     \<Longrightarrow> ev \<notin> set (fst (dayEvents parse tz d evs))"
  by (induction evs)
     (auto simp: toISODateOrNull_def split: prod.splits sum.splits if_splits)

text \<open>A warning is written for an event on which the parser throws, and for no other.\<close>

lemma dayEvents_warns:
  "parse (EventItem.start ev) tz = Inl err \<Longrightarrow> ev \<in> set evs \<Longrightarrow>
     (EventItem.start ev, err) \<in> set (snd (dayEvents parse tz d evs))"
  by (induction evs) (auto split: prod.splits sum.splits if_splits)

lemma dayEvents_no_throw:
  "(\<forall>ev \<in> set evs. \<exists>p. parse (EventItem.start ev) tz = Inr p)
     \<Longrightarrow> snd (dayEvents parse tz d evs) = []"
  by (induction evs) (auto split: prod.splits sum.splits)

lemma monthData_length: "length (fst (monthData parse env props)) = 42"
  by (simp add: monthData_def)

lemma monthData_nth:
  "i < 42 \<Longrightarrow> fst (monthData parse env props) ! i = fst (monthCell parse env props i)"
  by (simp add: monthData_def Let_def)

lemma monthCell_events:
  "MonthDayData.events (fst (monthCell parse env props i))
     = fst (dayEvents parse (timezone env)
              (plusDays (startOfCalendar env (MonthViewProps.dateUnix props)) (int i))
              (MonthViewProps.events props))"
  by (simp add: monthCell_def Let_def split: prod.splits)

lemma monthCell_warnings:
  "snd (monthCell parse env props i)
     = snd (dayEvents parse (timezone env)
              (plusDays (startOfCalendar env (MonthViewProps.dateUnix props)) (int i))
              (MonthViewProps.events props))"
  by (simp add: monthCell_def Let_def split: prod.splits)

text \<open>
  An event whose start cannot be parsed is in none of the 42 cells, and the grid is built
  all the same.
\<close>

lemma monthData_excludes:
  assumes "parse (EventItem.start ev) (timezone env) = Inl err
      \<or> parse (EventItem.start ev) (timezone env) = Inr InvalidDateTime"
  shows "ev \<notin> set (concat (map MonthDayData.events (fst (monthData parse env props))))"
proof -
  have "ev \<notin> set (MonthDayData.events (fst (monthCell parse env props i)))" for i
    using dayEvents_excludes [of parse ev "timezone env" err] assms
    by (simp add: monthCell_events)
  then show ?thesis
    by (auto simp: monthData_def Let_def)
qed

text \<open>When the parser throws on the start of an event of the list, a warning is written.\<close>

lemma monthData_warns_on_throw:
  assumes fails: "parse (EventItem.start ev) (timezone env) = Inl err"
    and given: "ev \<in> set (MonthViewProps.events props)"
  shows "(EventItem.start ev, err) \<in> set (snd (monthData parse env props))"
proof -
  have "(EventItem.start ev, err) \<in> set (snd (monthCell parse env props 0))"
    using fails given dayEvents_warns [of parse ev "timezone env" err]
    by (simp add: monthCell_warnings)
  moreover have "(0::nat) \<in> set [0 ..< 42]" by simp
  ultimately show ?thesis
    unfolding monthData_def Let_def snd_conv set_concat set_map by blast
qed

text \<open>When the parser throws on no event of the list, nothing is written.\<close>

lemma monthData_no_throw_no_warning:
  assumes "\<And>ev. ev \<in> set (MonthViewProps.events props)
      \<Longrightarrow> \<exists>p. parse (EventItem.start ev) (timezone env) = Inr p"
  shows "snd (monthData parse env props) = []"
proof -
  have "snd (monthCell parse env props i) = []" for i
    unfolding monthCell_warnings using assms by (intro dayEvents_no_throw) blast
  then show ?thesis
    by (simp add: monthData_def Let_def)
qed

text \<open>
  C6. The sample list holds an event whose start is the text \<open>next week\<close>, which the
  parser reads as an invalid date-time without throwing. The event is in none of the 42
  cells and the grid is built, as the claim says; but the \<open>catch\<close> that would write the
  warning is never entered, and nothing is recorded. With a parser that throws on the
  same text the warning is written.
\<close>

theorem monthData_invalid_start_no_warning:
  "sampleParse (EventItem.start badEvent) (timezone (sampleMonthContext 1)) = Inr InvalidDateTime
   \<and> badEvent \<in> set (MonthViewProps.events sampleMonthProps)
   \<and> length (fst (monthData sampleParse (sampleMonthContext 1) sampleMonthProps)) = 42
   \<and> badEvent \<notin> set (concat (map MonthDayData.events
         (fst (monthData sampleParse (sampleMonthContext 1) sampleMonthProps))))
   \<and> snd (monthData sampleParse (sampleMonthContext 1) sampleMonthProps) = []
   \<and> (DateString ''next week'', ''unparsable'')
        \<in> set (snd (monthData throwingParse (sampleMonthContext 1) sampleMonthProps))"
proof -
  have invalid: "sampleParse (EventItem.start badEvent) (timezone (sampleMonthContext 1))
      = Inr InvalidDateTime"
    by (simp add: sampleParse_def badEvent_def)
  have given: "badEvent \<in> set (MonthViewProps.events sampleMonthProps)"
    by (simp add: sampleMonthProps_def)
  have excluded: "badEvent \<notin> set (concat (map MonthDayData.events
         (fst (monthData sampleParse (sampleMonthContext 1) sampleMonthProps))))"
    using invalid by (intro monthData_excludes [where err = "[]"]) simp
  have silent: "snd (monthData sampleParse (sampleMonthContext 1) sampleMonthProps) = []"
  proof (rule monthData_no_throw_no_warning)
    fix ev
    assume "ev \<in> set (MonthViewProps.events sampleMonthProps)"
    then have "ev = goodEvent \<or> ev = badEvent"
      by (simp add: sampleMonthProps_def)
    then show "\<exists>p. sampleParse (EventItem.start ev) (timezone (sampleMonthContext 1)) = Inr p"
      by (auto simp: sampleParse_def goodEvent_def badEvent_def)
  qed
  have throws: "throwingParse (EventItem.start badEvent) (timezone (sampleMonthContext 1))
      = Inl ''unparsable''"
    by (simp add: throwingParse_def sampleParse_def badEvent_def)
  have st: "EventItem.start badEvent = DateString ''next week''"
    by (simp add: badEvent_def)
  have warned: "(DateString ''next week'', ''unparsable'')
        \<in> set (snd (monthData throwingParse (sampleMonthContext 1) sampleMonthProps))"
    using monthData_warns_on_throw [of throwingParse badEvent "sampleMonthContext 1"
        "''unparsable''" sampleMonthProps] throws given
    by (simp add: st)
  show ?thesis
    using invalid given monthData_length excluded silent warned by blast
qed


subsection \<open>The 42 cells of the month grid\<close>

lemma weekday_arith:
  fixes r fd k :: int
  assumes "0 \<le> fd" "fd \<le> 7" "0 \<le> r" "r < 7" "0 \<le> k" "k \<le> (r + 1 - fd + 7) mod 7"
  shows "((r - k) mod 7 + 1 = (if fd = 0 then 7 else fd)) = (k = (r + 1 - fd + 7) mod 7)"
proof -
  have r: "r = 0 \<or> r = 1 \<or> r = 2 \<or> r = 3 \<or> r = 4 \<or> r = 5 \<or> r = 6"
    using assms(3,4) by linarith
  have f: "fd = 0 \<or> fd = 1 \<or> fd = 2 \<or> fd = 3 \<or> fd = 4 \<or> fd = 5 \<or> fd = 6 \<or> fd = 7"
    using assms(1,2) by linarith
  have "(r + 1 - fd + 7) mod 7 < 7" by simp
  then have k: "k = 0 \<or> k = 1 \<or> k = 2 \<or> k = 3 \<or> k = 4 \<or> k = 5 \<or> k = 6"
    using assms(5,6) by linarith
  show ?thesis
    using r f k assms(6) by (elim disjE) simp_all
qed

lemma dayNumber_minusDays: "dayNumber (minusDays d k) = dayNumber d - k"
proof -
  have "MILLISECONDS_IN_DAY \<noteq> 0" by (simp add: MILLISECONDS_IN_DAY_def)
  then have "(d + (- k) * MILLISECONDS_IN_DAY) div MILLISECONDS_IN_DAY
      = (- k) + d div MILLISECONDS_IN_DAY"
    by (rule div_mult_self1)
  then show ?thesis by (simp add: dayNumber_def minusDays_def)
qed

lemma weekday_minusDays: "weekday (minusDays d k) = (dayNumber d - k + 3) mod 7 + 1"
  by (simp add: weekday_def dayNumber_minusDays)

lemma diffToFirstDay_mod:
  assumes "0 \<le> firstDay env" "firstDay env \<le> 7"
  shows "diffToFirstDay env som = (weekday som - firstDay env + 7) mod 7"
proof -
  have "1 \<le> weekday som" by (simp add: weekday_def)
  then have "0 \<le> weekday som - firstDay env + 7" using assms by linarith
  then show ?thesis
    by (cases "weekday som - firstDay env + 7 = 0")
       (simp_all add: diffToFirstDay_def jsRemInt_def Let_def sgn_if)
qed

lemma monthCell_fields:
  "MonthDayData.date (fst (monthCell parse env props i))
      = plusDays (startOfCalendar env (MonthViewProps.dateUnix props)) (int i)
   \<and> MonthDayData.dateUnix (fst (monthCell parse env props i))
      = toMillis (plusDays (startOfCalendar env (MonthViewProps.dateUnix props)) (int i))
   \<and> isCurrentMonth (fst (monthCell parse env props i))
      = (month (plusDays (startOfCalendar env (MonthViewProps.dateUnix props)) (int i))
           = month (parseDateTime (MonthViewProps.dateUnix props)))"
  by (simp add: monthCell_def Let_def split: prod.splits)

text \<open>
  C2. For every anchor instant and first day of the week (0 to 7), the grid has 42 cells;
  with \<open>som\<close> the start of the anchor month and
  \<open>diff = (weekday som - firstDay + 7) mod 7\<close>, cell 0 is \<open>som\<close> minus \<open>diff\<close> days and
  cell \<open>i\<close> is cell 0 plus \<open>i\<close> days; the flag \<open>isCurrentMonth\<close> of a cell says that its
  month is the anchor's month. Cell 0 falls on the configured first day, is not after
  \<open>som\<close>, and no day between it and \<open>som\<close> falls on that weekday.
\<close>

theorem monthData_grid:
  assumes fd: "0 \<le> firstDay env" "firstDay env \<le> 7"
  shows "\<exists>som diff origin.
       som = startOfMonth (parseDateTime (MonthViewProps.dateUnix props))
     \<and> diff = (weekday som - firstDay env + 7) mod 7
     \<and> origin = minusDays som diff
     \<and> length (fst (monthData parse env props)) = 42
     \<and> (\<forall>i < 42.
           MonthDayData.date (fst (monthData parse env props) ! i) = plusDays origin (int i)
         \<and> MonthDayData.dateUnix (fst (monthData parse env props) ! i)
             = toMillis (plusDays origin (int i))
         \<and> isCurrentMonth (fst (monthData parse env props) ! i)
             = (month (MonthDayData.date (fst (monthData parse env props) ! i))
                  = month (parseDateTime (MonthViewProps.dateUnix props))))
     \<and> weekday origin = firstDayWeekday (firstDay env)
     \<and> origin \<le> som
     \<and> (\<forall>k. 0 \<le> k \<and> k < diff
            \<longrightarrow> weekday (minusDays som k) \<noteq> firstDayWeekday (firstDay env))"
proof -
  define som where "som = startOfMonth (parseDateTime (MonthViewProps.dateUnix props))"
  define diff where "diff = (weekday som - firstDay env + 7) mod 7"
  define origin where "origin = minusDays som diff"
  have cal: "startOfCalendar env (MonthViewProps.dateUnix props) = origin"
    by (simp add: startOfCalendar_def Let_def diffToFirstDay_mod [OF fd]
          origin_def diff_def som_def)
  have cells: "\<forall>i < 42.
           MonthDayData.date (fst (monthData parse env props) ! i) = plusDays origin (int i)
         \<and> MonthDayData.dateUnix (fst (monthData parse env props) ! i)
             = toMillis (plusDays origin (int i))
         \<and> isCurrentMonth (fst (monthData parse env props) ! i)
             = (month (MonthDayData.date (fst (monthData parse env props) ! i))
                  = month (parseDateTime (MonthViewProps.dateUnix props)))"
    using monthCell_fields [of parse env props] by (simp add: monthData_nth cal)
  define r where "r = (dayNumber som + 3) mod 7"
  have r_range: "0 \<le> r" "r < 7" by (simp_all add: r_def)
  have diff_range: "0 \<le> diff" "diff < 7" by (simp_all add: diff_def)
  have diff_eq: "diff = (r + 1 - firstDay env + 7) mod 7"
    by (simp add: diff_def weekday_def r_def)
  have wd_back: "weekday (minusDays som k) = (r - k) mod 7 + 1" for k
  proof -
    have "(dayNumber som - k + 3) mod 7 = (dayNumber som + 3 - k) mod 7"
      by (simp add: algebra_simps)
    also have "\<dots> = (r - k) mod 7"
      unfolding r_def by (simp add: mod_diff_left_eq)
    finally show ?thesis by (simp add: weekday_minusDays)
  qed
  have hit: "(weekday (minusDays som k) = firstDayWeekday (firstDay env)) = (k = diff)"
    if "0 \<le> k" "k \<le> diff" for k
    unfolding wd_back firstDayWeekday_def diff_eq
    using that(2) unfolding diff_eq
    by (intro weekday_arith fd r_range that(1))
  have w_origin: "weekday origin = firstDayWeekday (firstDay env)"
    using hit [of diff] diff_range by (simp add: origin_def)
  have le: "origin \<le> som"
    using diff_range by (simp add: origin_def minusDays_def MILLISECONDS_IN_DAY_def)
  have recent: "\<forall>k. 0 \<le> k \<and> k < diff
            \<longrightarrow> weekday (minusDays som k) \<noteq> firstDayWeekday (firstDay env)"
    using hit by force
  show ?thesis
    using som_def diff_def origin_def monthData_length [of parse env props]
      cells w_origin le recent
    by blast
qed


text \<open>February 2024 with Monday first: the grid runs from 29 January to 10 March.\<close>

theorem monthData_grid_witness:
  "0 \<le> firstDay (sampleMonthContext 1) \<and> firstDay (sampleMonthContext 1) \<le> 7
   \<and> length (fst (monthData sampleParse (sampleMonthContext 1) sampleMonthProps)) = 42
   \<and> MonthDayData.dateUnix (fst (monthData sampleParse (sampleMonthContext 1) sampleMonthProps) ! 0)
        = 1706486400000
   \<and> MonthDayData.dateUnix (fst (monthData sampleParse (sampleMonthContext 1) sampleMonthProps) ! 41)
        = 1710028800000
   \<and> weekday 1706486400000 = 1"
proof -
  have fd: "0 \<le> firstDay (sampleMonthContext 1)" "firstDay (sampleMonthContext 1) \<le> 7"
    by (simp_all add: sampleMonthContext_def)
  have fd1: "firstDay (sampleMonthContext 1) = 1"
    by (simp add: sampleMonthContext_def)
  have anchor: "parseDateTime (MonthViewProps.dateUnix sampleMonthProps) = 1707955200000"
    by (simp add: parseDateTime_def sampleMonthProps_def)
  have iso: "toISODate 1707955200000 = (2024, 2, 15)"
    by code_simp
  have first_of_month: "daysFromCivil 2024 2 1 = 19754"
    by code_simp
  have som: "startOfMonth (parseDateTime (MonthViewProps.dateUnix sampleMonthProps))
      = 1706745600000"
    by (simp add: anchor startOfMonth_def iso first_of_month MILLISECONDS_IN_DAY_def)
  have wd: "weekday 1706745600000 = 4"
    by (simp add: weekday_def dayNumber_def MILLISECONDS_IN_DAY_def)
  have origin: "minusDays 1706745600000 3 = 1706486400000"
    by (simp add: minusDays_def MILLISECONDS_IN_DAY_def)
  have first: "toMillis (plusDays 1706486400000 (int 0)) = 1706486400000"
    and last: "toMillis (plusDays 1706486400000 (int 41)) = 1710028800000"
    by (simp_all add: toMillis_def plusDays_def MILLISECONDS_IN_DAY_def)
  let ?cells = "fst (monthData sampleParse (sampleMonthContext 1) sampleMonthProps)"
  let ?som = "startOfMonth (parseDateTime (MonthViewProps.dateUnix sampleMonthProps))"
  let ?origin = "minusDays ?som ((weekday ?som - firstDay (sampleMonthContext 1) + 7) mod 7)"
  have o: "?origin = 1706486400000"
    by (simp add: som fd1 wd origin)
  have grid: "length ?cells = 42
      \<and> (\<forall>i < 42. MonthDayData.dateUnix (?cells ! i) = toMillis (plusDays ?origin (int i)))
      \<and> weekday ?origin = firstDayWeekday (firstDay (sampleMonthContext 1))"
    using monthData_grid [OF fd, of sampleMonthProps sampleParse] by blast
  have len: "length ?cells = 42" using grid by blast
  have c0: "MonthDayData.dateUnix (?cells ! 0) = toMillis (plusDays ?origin (int 0))"
    and c41: "MonthDayData.dateUnix (?cells ! 41) = toMillis (plusDays ?origin (int 41))"
    using grid by simp_all
  have w0: "weekday ?origin = firstDayWeekday (firstDay (sampleMonthContext 1))"
    using grid by blast
  have d0: "MonthDayData.dateUnix (?cells ! 0) = 1706486400000"
    by (simp only: c0 o) (simp add: toMillis_def plusDays_def)
  have d41: "MonthDayData.dateUnix (?cells ! 41) = 1710028800000"
    by (simp only: c41 o) (simp add: toMillis_def plusDays_def MILLISECONDS_IN_DAY_def)
  have "weekday 1706486400000 = firstDayWeekday (firstDay (sampleMonthContext 1))"
    using w0 by (simp only: o)
  then have w: "weekday 1706486400000 = 1"
    by (simp add: fd1 firstDayWeekday_def)
  show ?thesis
    using fd len d0 d41 w by blast
qed


end
